theory Spec2Isabelle
  imports Complex_Main
begin

unbundle bit_operations_syntax

section \<open>Python values shared by the modules\<close>

text \<open>
  Python integers are unbounded: they are modelled as \<^typ>\<open>int\<close>. On \<^typ>\<open>int\<close>,
  \<^const>\<open>drop_bit\<close> is Python's \<open>>>\<close> (a floor shift, also on negative numbers) and
  \<open>AND\<close> is Python's \<open>&\<close> (infinite two's complement).
  Exceptions are values of the type \<open>error\<close>; a computation that may raise returns
  \<open>error + 'a\<close> with \<open>Inl\<close> for the exception.
\<close>

datatype error = ValueError | IndexError | KeyError | OSError | ZeroDivisionError | OverflowError

type_synonym bytes = "int list"

text \<open>\<open>bytearray(n)\<close>: a fresh buffer of \<open>n\<close> zero bytes.\<close>

definition bytearray :: "nat \<Rightarrow> bytes" where
  "bytearray n = replicate n 0"

text \<open>
  \<open>packet[i] = v\<close> on a bytearray: IndexError when \<open>i\<close> is out of range, ValueError
  when \<open>v\<close> is not in \<open>range(256)\<close>.
\<close>

definition setitem :: "bytes \<Rightarrow> nat \<Rightarrow> int \<Rightarrow> error + bytes" where
  "setitem packet i v =
     (if length packet \<le> i then Inl IndexError
      else if v < 0 \<or> 255 < v then Inl ValueError
      else Inr (packet[i := v]))"

text \<open>A sequence of item assignments, in program order; the first exception ends it.\<close>

fun assign_all :: "bytes \<Rightarrow> (nat \<times> int) list \<Rightarrow> error + bytes" where
  "assign_all packet [] = Inr packet"
| "assign_all packet ((i, v) # rest) =
     (case setitem packet i v of
        Inl e \<Rightarrow> Inl e
      | Inr packet' \<Rightarrow> assign_all packet' rest)"

section \<open>hid\_device.py: the device state, the snapshot and its setters\<close>

record DeviceInfo =
  path :: string
  vendor_id :: int
  product_id :: int
  name :: string
  is_gamdias :: bool

record SensorData =
  cpu_temp :: int
  cpu_usage :: int
  cpu_freq :: int
  cpu_fan_rpm :: int
  cpu_power :: int
  gpu_temp :: int
  gpu_usage :: int
  gpu_freq :: int
  gpu_fan_rpm :: int
  gpu_power :: int
  mem_usage :: int
  mem_temp :: int
  disk_usage :: int
  disk_temp :: int
  net_upload :: int
  net_download :: int
  display_mode :: int

text \<open>\<open>SensorData()\<close>: every field defaults to 0.\<close>

definition SensorData_default :: SensorData where
  "SensorData_default =
     \<lparr>cpu_temp = 0, cpu_usage = 0, cpu_freq = 0, cpu_fan_rpm = 0, cpu_power = 0,
      gpu_temp = 0, gpu_usage = 0, gpu_freq = 0, gpu_fan_rpm = 0, gpu_power = 0,
      mem_usage = 0, mem_temp = 0, disk_usage = 0, disk_temp = 0,
      net_upload = 0, net_download = 0, display_mode = 0\<rparr>"

text \<open>
  The attributes of a \<open>HidDevice\<close>. \<open>_devices\<close> is a dict from path to file descriptor:
  an association list in insertion order, whose keys are distinct. \<open>_device_info\<close> is
  only looked up, never iterated: a map. The log callback has no effect on the state.
\<close>

record HidDevice =
  devices :: "(string \<times> int) list"
  device_info :: "string \<rightharpoonup> DeviceInfo"
  sensor_data :: SensorData
  initialized_devices :: "string set"

definition HidDevice_init :: HidDevice where
  "HidDevice_init =
     \<lparr>devices = [], device_info = Map.empty, sensor_data = SensorData_default,
      initialized_devices = {}\<rparr>"

definition get_online_device_count :: "HidDevice \<Rightarrow> int" where
  "get_online_device_count self = int (length (devices self))"

definition set_cpu_data :: "HidDevice \<Rightarrow> int \<Rightarrow> int \<Rightarrow> int \<Rightarrow> int \<Rightarrow> int \<Rightarrow> HidDevice" where
  "set_cpu_data self temp usage freq fan_rpm power' =
     self\<lparr>sensor_data := (sensor_data self)
       \<lparr>cpu_temp := min 255 (max 0 temp),
        cpu_usage := min 100 (max 0 usage),
        cpu_freq := min 65535 (max 0 freq),
        cpu_fan_rpm := min 65535 (max 0 fan_rpm),
        cpu_power := min 65535 (max 0 power')\<rparr>\<rparr>"

definition set_gpu_data :: "HidDevice \<Rightarrow> int \<Rightarrow> int \<Rightarrow> int \<Rightarrow> int \<Rightarrow> int \<Rightarrow> HidDevice" where
  "set_gpu_data self temp usage freq fan_rpm power' =
     self\<lparr>sensor_data := (sensor_data self)
       \<lparr>gpu_temp := min 255 (max 0 temp),
        gpu_usage := min 100 (max 0 usage),
        gpu_freq := min 65535 (max 0 freq),
        gpu_fan_rpm := min 65535 (max 0 fan_rpm),
        gpu_power := min 65535 (max 0 power')\<rparr>\<rparr>"

definition set_memory_data :: "HidDevice \<Rightarrow> int \<Rightarrow> int \<Rightarrow> HidDevice" where
  "set_memory_data self usage temp =
     self\<lparr>sensor_data := (sensor_data self)
       \<lparr>mem_usage := min 100 (max 0 usage), mem_temp := min 255 (max 0 temp)\<rparr>\<rparr>"

definition set_disk_data :: "HidDevice \<Rightarrow> int \<Rightarrow> int \<Rightarrow> HidDevice" where
  "set_disk_data self usage temp =
     self\<lparr>sensor_data := (sensor_data self)
       \<lparr>disk_usage := min 100 (max 0 usage), disk_temp := min 255 (max 0 temp)\<rparr>\<rparr>"

definition set_network_speed :: "HidDevice \<Rightarrow> int \<Rightarrow> int \<Rightarrow> HidDevice" where
  "set_network_speed self upload download =
     self\<lparr>sensor_data := (sensor_data self)\<lparr>net_upload := upload, net_download := download\<rparr>\<rparr>"

definition set_display_mode :: "HidDevice \<Rightarrow> int \<Rightarrow> HidDevice" where
  "set_display_mode self mode =
     self\<lparr>sensor_data := (sensor_data self)\<lparr>display_mode := mode\<rparr>\<rparr>"

text \<open>A call of one of the six setters, and a sequence of such calls on a device object.\<close>

datatype setter_call =
  SetCpuData int int int int int
| SetGpuData int int int int int
| SetMemoryData int int
| SetDiskData int int
| SetNetworkSpeed int int
| SetDisplayMode int

fun call_setter :: "HidDevice \<Rightarrow> setter_call \<Rightarrow> HidDevice" where
  "call_setter self (SetCpuData t u f r w) = set_cpu_data self t u f r w"
| "call_setter self (SetGpuData t u f r w) = set_gpu_data self t u f r w"
| "call_setter self (SetMemoryData u t) = set_memory_data self u t"
| "call_setter self (SetDiskData u t) = set_disk_data self u t"
| "call_setter self (SetNetworkSpeed up down) = set_network_speed self up down"
| "call_setter self (SetDisplayMode m) = set_display_mode self m"

definition call_setters :: "HidDevice \<Rightarrow> setter_call list \<Rightarrow> HidDevice" where
  "call_setters self calls = foldl call_setter self calls"

section \<open>hid\_device.py: the packet builders\<close>

text \<open>
  \<open>datetime.now()\<close> is an input of the builders. \<open>weekday\<close> is the value of the method
  \<open>now.weekday()\<close> (Monday is 0).
\<close>

record datetime =
  year :: int
  month :: int
  day :: int
  hour :: int
  minute :: int
  second :: int
  weekday :: int

definition REPORT_SIZE :: nat where
  "REPORT_SIZE = 65"

definition gamdias_assignments :: "datetime \<Rightarrow> SensorData \<Rightarrow> (nat \<times> int) list" where
  "gamdias_assignments now data =
     [(0, 0xB0),
      (1, 0x01),
      (2, 0x00),
      (3, gpu_temp data),
      (4, cpu_temp data AND 0xFF),
      (5, drop_bit 8 (cpu_temp data) AND 0xFF),
      (6, cpu_usage data),
      (7, cpu_fan_rpm data AND 0xFF),
      (8, drop_bit 8 (cpu_fan_rpm data) AND 0xFF),
      (9, gpu_fan_rpm data AND 0xFF),
      (10, drop_bit 8 (gpu_fan_rpm data) AND 0xFF),
      (11, gpu_power data AND 0xFF),
      (12, drop_bit 8 (gpu_power data) AND 0xFF),
      (13, 0x00),
      (14, drop_bit 8 (cpu_freq data) AND 0xFF),
      (15, cpu_freq data AND 0xFF),
      (16, gpu_usage data),
      (17, drop_bit 8 (gpu_freq data) AND 0xFF),
      (18, gpu_freq data AND 0xFF),
      (19, hour now),
      (20, minute now),
      (21, second now),
      (22, mem_usage data),
      (23, disk_usage data),
      (24, cpu_power data AND 0xFF),
      (25, drop_bit 8 (cpu_power data) AND 0xFF)]"

text \<open>
  The builders are methods of the device object: they take \<open>self\<close> and return the
  packet (or the exception of a failed item assignment) together with \<open>self\<close> as they
  leave it.
\<close>

definition build_gamdias_packet :: "datetime \<Rightarrow> HidDevice \<Rightarrow> (error + bytes) \<times> HidDevice" where
  "build_gamdias_packet now self =
     (let data = sensor_data self
      in (assign_all (bytearray REPORT_SIZE) (gamdias_assignments now data), self))"

definition hwcx_assignments :: "datetime \<Rightarrow> SensorData \<Rightarrow> (nat \<times> int) list" where
  "hwcx_assignments now data =
     [(0, 0x00),
      (1, 0x02),
      (2, cpu_temp data),
      (3, gpu_temp data),
      (4, hour now),
      (5, minute now),
      (6, second now),
      (7, 0x00),
      (8, drop_bit 8 (year now) AND 0xFF),
      (9, year now AND 0xFF),
      (10, month now),
      (11, day now),
      (12, weekday now),
      (13, cpu_usage data),
      (14, drop_bit 8 (cpu_freq data) AND 0xFF),
      (15, cpu_freq data AND 0xFF),
      (16, gpu_usage data),
      (17, drop_bit 8 (gpu_freq data) AND 0xFF),
      (18, gpu_freq data AND 0xFF),
      (19, mem_usage data),
      (20, mem_temp data),
      (21, 0x00),
      (22, 0x00),
      (23, disk_usage data),
      (24, disk_temp data),
      (25, drop_bit 8 (cpu_fan_rpm data) AND 0xFF),
      (26, cpu_fan_rpm data AND 0xFF),
      (27, 0x00),
      (28, 0x00),
      (29, drop_bit 8 (cpu_power data) AND 0xFF),
      (30, cpu_power data AND 0xFF),
      (31, drop_bit 8 (gpu_fan_rpm data) AND 0xFF),
      (32, gpu_fan_rpm data AND 0xFF),
      (33, 0x00),
      (34, 0x00),
      (35, drop_bit 8 (gpu_power data) AND 0xFF),
      (36, gpu_power data AND 0xFF),
      (41, drop_bit 24 (net_upload data) AND 0xFF),
      (42, drop_bit 16 (net_upload data) AND 0xFF),
      (43, drop_bit 8 (net_upload data) AND 0xFF),
      (44, net_upload data AND 0xFF),
      (45, drop_bit 24 (net_download data) AND 0xFF),
      (46, drop_bit 16 (net_download data) AND 0xFF),
      (47, drop_bit 8 (net_download data) AND 0xFF),
      (48, net_download data AND 0xFF),
      (49, display_mode data)]"

definition build_hwcx_packet :: "datetime \<Rightarrow> HidDevice \<Rightarrow> (error + bytes) \<times> HidDevice" where
  "build_hwcx_packet now self =
     (let data = sensor_data self
      in (assign_all (bytearray REPORT_SIZE) (hwcx_assignments now data), self))"

text \<open>Reading two bytes of a packet as a 16-bit big-endian integer.\<close>

definition be16 :: "bytes \<Rightarrow> nat \<Rightarrow> int" where
  "be16 packet i = packet ! i * 256 + packet ! (i + 1)"

text \<open>
  The ranges that the four clamping setters establish: temperatures in a byte, usages
  in 0 to 100, frequencies, fan speeds and powers in 16 bits.
\<close>

definition clamped :: "SensorData \<Rightarrow> bool" where
  "clamped d \<longleftrightarrow>
     0 \<le> cpu_temp d \<and> cpu_temp d \<le> 255 \<and> 0 \<le> cpu_usage d \<and> cpu_usage d \<le> 100 \<and>
     0 \<le> cpu_freq d \<and> cpu_freq d \<le> 65535 \<and> 0 \<le> cpu_fan_rpm d \<and> cpu_fan_rpm d \<le> 65535 \<and>
     0 \<le> cpu_power d \<and> cpu_power d \<le> 65535 \<and>
     0 \<le> gpu_temp d \<and> gpu_temp d \<le> 255 \<and> 0 \<le> gpu_usage d \<and> gpu_usage d \<le> 100 \<and>
     0 \<le> gpu_freq d \<and> gpu_freq d \<le> 65535 \<and> 0 \<le> gpu_fan_rpm d \<and> gpu_fan_rpm d \<le> 65535 \<and>
     0 \<le> gpu_power d \<and> gpu_power d \<le> 65535 \<and>
     0 \<le> mem_usage d \<and> mem_usage d \<le> 100 \<and> 0 \<le> mem_temp d \<and> mem_temp d \<le> 255 \<and>
     0 \<le> disk_usage d \<and> disk_usage d \<le> 100 \<and> 0 \<le> disk_temp d \<and> disk_temp d \<le> 255"

text \<open>The ranges of the fields of a Python \<open>datetime\<close>.\<close>

definition valid_datetime :: "datetime \<Rightarrow> bool" where
  "valid_datetime now \<longleftrightarrow>
     1 \<le> year now \<and> year now \<le> 9999 \<and> 1 \<le> month now \<and> month now \<le> 12 \<and>
     1 \<le> day now \<and> day now \<le> 31 \<and> 0 \<le> hour now \<and> hour now \<le> 23 \<and>
     0 \<le> minute now \<and> minute now \<le> 59 \<and> 0 \<le> second now \<and> second now \<le> 59 \<and>
     0 \<le> weekday now \<and> weekday now \<le> 6"

text \<open>A clock value used in the examples: Tuesday 3 November 2026, 12:30:59.\<close>

definition example_now :: datetime where
  "example_now = \<lparr>year = 2026, month = 11, day = 3, hour = 12, minute = 30, second = 59, weekday = 1\<rparr>"

text \<open>One second later.\<close>

definition example_later :: datetime where
  "example_later = \<lparr>year = 2026, month = 11, day = 3, hour = 12, minute = 31, second = 0, weekday = 1\<rparr>"

section \<open>hid\_device.py: discovery, opening and transmission\<close>

text \<open>
  The operating system is an input. \<open>hidraw\<close> lists the nodes \<open>/dev/hidraw*\<close> in sorted
  order, each with what the two ioctls return for it (the signed 16-bit vendor and product
  numbers, and the name), or \<open>None\<close> when the node cannot be queried. \<open>os_open\<close> and
  \<open>os_write\<close> give the outcome of \<open>os.open\<close> and of the \<open>os.write\<close> of the data packet
  for a path, \<open>clock\<close> the value of \<open>datetime.now()\<close> when the packet for a path is built.
\<close>

datatype open_outcome = Opened int | OpenPermissionError | OpenError

datatype write_outcome = Written int | WriteOSError int | WriteError

record system =
  hidraw :: "(string \<times> (int \<times> int \<times> string) option) list"
  os_open :: "string \<Rightarrow> open_outcome"
  os_write :: "string \<Rightarrow> write_outcome"
  clock :: "string \<Rightarrow> datetime"

text \<open>The calls that \<open>send_data\<close> makes to the operating system, in order.\<close>

datatype os_call = InitWrite int bytes | DataWrite string int bytes | Close int

definition SUPPORTED_DEVICES :: "(int \<times> int \<times> string) list" where
  "SUPPORTED_DEVICES = [(0x1B80, 0xB538, ''GAMDIAS ATLAS''), (0x0145, 0x1005, ''HWCX Controller'')]"

definition get_device_info :: "string \<Rightarrow> (int \<times> int \<times> string) option \<Rightarrow> DeviceInfo option" where
  "get_device_info p raw =
     (case raw of
        None \<Rightarrow> None
      | Some (vendor_raw, product_raw, device_name) \<Rightarrow>
          (let vid = vendor_raw AND 0xFFFF;
               pid = product_raw AND 0xFFFF
           in Some \<lparr>path = p, vendor_id = vid, product_id = pid, name = device_name,
                     is_gamdias = (vid = 0x1B80 \<and> pid = 0xB538)\<rparr>))"

fun scan_devices :: "(string \<times> (int \<times> int \<times> string) option) list \<Rightarrow> DeviceInfo list" where
  "scan_devices [] = []"
| "scan_devices ((p, raw) # nodes) =
     (case get_device_info p raw of
        None \<Rightarrow> scan_devices nodes
      | Some info \<Rightarrow>
          if \<exists>(vid, pid, desc) \<in> set SUPPORTED_DEVICES. vendor_id info = vid \<and> product_id info = pid
          then info # scan_devices nodes
          else scan_devices nodes)"

text \<open>\<open>d[k] = v\<close> on a dict: the value of an old key is replaced, a new key is added last.\<close>

fun dict_set :: "('k \<times> 'v) list \<Rightarrow> 'k \<Rightarrow> 'v \<Rightarrow> ('k \<times> 'v) list" where
  "dict_set [] k v = [(k, v)]"
| "dict_set ((k', v') # kvs) k v =
     (if k' = k then (k, v) # kvs else (k', v') # dict_set kvs k v)"

text \<open>\<open>del d[k]\<close> on a dict: KeyError for a missing key.\<close>

definition dict_del :: "('k \<times> 'v) list \<Rightarrow> 'k \<Rightarrow> error + ('k \<times> 'v) list" where
  "dict_del kvs k =
     (case map_of kvs k of
        None \<Rightarrow> Inl KeyError
      | Some v \<Rightarrow> Inr (filter (\<lambda>kv. fst kv \<noteq> k) kvs))"

fun open_each :: "system \<Rightarrow> DeviceInfo list \<Rightarrow> int \<times> HidDevice \<Rightarrow> int \<times> HidDevice" where
  "open_each sys [] (opened, self) = (opened, self)"
| "open_each sys (info # infos) (opened, self) =
     (case os_open sys (path info) of
        Opened fd \<Rightarrow>
          open_each sys infos
            (opened + 1,
             self\<lparr>devices := dict_set (devices self) (path info) fd,
                  device_info := (device_info self)(path info \<mapsto> info)\<rparr>)
      | OpenPermissionError \<Rightarrow> open_each sys infos (opened, self)
      | OpenError \<Rightarrow> open_each sys infos (opened, self))"

definition open_devices :: "system \<Rightarrow> HidDevice \<Rightarrow> int \<times> HidDevice" where
  "open_devices sys self = open_each sys (scan_devices (hidraw sys)) (0, self)"

definition init_commands :: "bytes list" where
  "init_commands = [[0xB0, 0x01, 0x00], [0x00, 0x38, 0xB5, 0x01, 0x00], [0x00, 0x38, 0xB5, 0x01, 0x01]]"

text \<open>
  \<open>_send_gamdias_init\<close>: each command is copied to the front of a fresh report and
  written; a failed write is logged and ignored.
\<close>

definition send_gamdias_init :: "int \<Rightarrow> os_call list" where
  "send_gamdias_init fd =
     map (\<lambda>cmd. InitWrite fd (cmd @ drop (length cmd) (bytearray REPORT_SIZE))) init_commands"

text \<open>
  One iteration of the loop of \<open>send_data\<close> over \<open>self._devices.items()\<close>. The state of
  the loop is \<open>self\<close>, \<open>success\<close>, \<open>to_remove\<close> and the calls made so far.
\<close>

type_synonym send_state = "HidDevice \<times> bool \<times> string list \<times> os_call list"

fun send_one :: "system \<Rightarrow> send_state \<Rightarrow> string \<times> int \<Rightarrow> send_state" where
  "send_one sys (self, success, to_remove, calls) (p, fd) =
     (case device_info self p of
        None \<Rightarrow> (self, success, to_remove, calls)
      | Some info \<Rightarrow>
          (let calls1 = (if p \<notin> initialized_devices self \<and> is_gamdias info
                         then calls @ send_gamdias_init fd else calls);
               self1 = (if p \<notin> initialized_devices self
                        then self\<lparr>initialized_devices := insert p (initialized_devices self)\<rparr>
                        else self);
               (built, self2) = (if is_gamdias info
                                 then build_gamdias_packet (clock sys p) self1
                                 else build_hwcx_packet (clock sys p) self1)
           in (case built of
                 Inl e \<Rightarrow> (self2, success, to_remove, calls1)
               | Inr packet \<Rightarrow>
                   (case os_write sys p of
                      Written n \<Rightarrow>
                        (self2, (if n = int (length packet) then True else success), to_remove,
                         calls1 @ [DataWrite p fd packet])
                    | WriteOSError errno \<Rightarrow>
                        (self2, success, (if errno = 19 then to_remove @ [p] else to_remove),
                         calls1 @ [DataWrite p fd packet])
                    | WriteError \<Rightarrow>
                        (self2, success, to_remove, calls1 @ [DataWrite p fd packet])))))"

text \<open>The clean-up loop of \<open>send_data\<close> over \<open>to_remove\<close>.\<close>

fun remove_devices :: "string list \<Rightarrow> HidDevice \<times> os_call list \<Rightarrow> error + HidDevice \<times> os_call list" where
  "remove_devices [] (self, calls) = Inr (self, calls)"
| "remove_devices (p # ps) (self, calls) =
     (let calls1 = (case map_of (devices self) p of
                      None \<Rightarrow> calls
                    | Some fd \<Rightarrow> calls @ [Close fd])
      in case dict_del (devices self) p of
           Inl e \<Rightarrow> Inl e
         | Inr devices1 \<Rightarrow>
             remove_devices ps
               (self\<lparr>devices := devices1,
                     device_info := (device_info self)(p := None),
                     initialized_devices := initialized_devices self - {p}\<rparr>,
                calls1))"

text \<open>\<open>send_data\<close>: the returned flag, \<open>self\<close> afterwards, and the calls made.\<close>

definition send_data :: "system \<Rightarrow> HidDevice \<Rightarrow> error + bool \<times> HidDevice \<times> os_call list" where
  "send_data sys self =
     (if devices self = [] then Inr (False, self, [])
      else
        (case foldl (send_one sys) (self, False, [], []) (devices self) of
           (self1, success, to_remove, calls) \<Rightarrow>
             (case remove_devices to_remove (self1, calls) of
                Inl e \<Rightarrow> Inl e
              | Inr (self2, calls2) \<Rightarrow> Inr (success, self2, calls2))))"

text \<open>
  The packet that \<open>send_data\<close> builds for the device at a path, and the condition under
  which \<open>send_data\<close> puts a path on \<open>to_remove\<close>: the device is known, its packet was
  built, and the write of the packet failed with errno 19.
\<close>

definition data_packet :: "system \<Rightarrow> HidDevice \<Rightarrow> string \<Rightarrow> DeviceInfo \<Rightarrow> error + bytes" where
  "data_packet sys self p info =
     fst (if is_gamdias info then build_gamdias_packet (clock sys p) self
          else build_hwcx_packet (clock sys p) self)"

definition disconnected :: "system \<Rightarrow> HidDevice \<Rightarrow> string \<Rightarrow> bool" where
  "disconnected sys self p =
     (case device_info self p of
        None \<Rightarrow> False
      | Some info \<Rightarrow>
          (case data_packet sys self p info of
             Inl e \<Rightarrow> False
           | Inr packet \<Rightarrow> os_write sys p = WriteOSError 19))"

text \<open>
  An example: a GAMDIAS display whose write fails with errno 19 (no such device) and an
  HWCX controller whose write fails with errno 5.
\<close>

definition example_system :: system where
  "example_system =
     \<lparr>hidraw = [(''/dev/hidraw0'', Some (0x1B80, - 0x4AC8, ''GAMDIAS ATLAS'')),
                (''/dev/hidraw1'', Some (0x0145, 0x1005, ''HWCX Controller''))],
      os_open = (\<lambda>p. if p = ''/dev/hidraw0'' then Opened 3 else Opened 4),
      os_write = (\<lambda>p. if p = ''/dev/hidraw0'' then WriteOSError 19 else WriteOSError 5),
      clock = (\<lambda>p. example_now)\<rparr>"

definition example_device :: HidDevice where
  "example_device =
     \<lparr>devices = [(''/dev/hidraw0'', 3), (''/dev/hidraw1'', 4)],
      device_info =
        [''/dev/hidraw0'' \<mapsto> \<lparr>path = ''/dev/hidraw0'', vendor_id = 0x1B80, product_id = 0xB538,
                               name = ''GAMDIAS ATLAS'', is_gamdias = True\<rparr>,
         ''/dev/hidraw1'' \<mapsto> \<lparr>path = ''/dev/hidraw1'', vendor_id = 0x0145, product_id = 0x1005,
                               name = ''HWCX Controller'', is_gamdias = False\<rparr>],
      sensor_data = SensorData_default,
      initialized_devices = {''/dev/hidraw1''}\<rparr>"

section \<open>Python text and numbers used by hardware\_monitor.py\<close>

text \<open>
  Text is a list of characters with code points below 256. \<open>str.isspace\<close> holds there
  for the code points 9 to 13, 28 to 32, 0x85 and 0xA0; the only decimal digits are
  \<open>0\<close> to \<open>9\<close>.
\<close>

definition isspace :: "char \<Rightarrow> bool" where
  "isspace c \<longleftrightarrow> (of_char c :: nat) \<in> {9, 10, 11, 12, 13, 28, 29, 30, 31, 32, 0x85, 0xA0}"

definition isdigit :: "char \<Rightarrow> bool" where
  "isdigit c \<longleftrightarrow> 48 \<le> (of_char c :: nat) \<and> (of_char c :: nat) \<le> 57"

definition digit_value :: "char \<Rightarrow> int" where
  "digit_value c = int (of_char c) - 48"

text \<open>\<open>s.strip()\<close>: whitespace removed at both ends.\<close>

definition strip :: "string \<Rightarrow> string" where
  "strip s = rev (dropWhile isspace (rev (dropWhile isspace s)))"

text \<open>
  \<open>s.split()\<close>: the maximal runs of non-whitespace characters. The first argument is
  the word read so far.
\<close>

fun split_from :: "string \<Rightarrow> string \<Rightarrow> string list" where
  "split_from word [] = (if word = [] then [] else [word])"
| "split_from word (c # cs) =
     (if isspace c then (if word = [] then split_from [] cs else word # split_from [] cs)
      else split_from (word @ [c]) cs)"

definition split :: "string \<Rightarrow> string list" where
  "split s = split_from [] s"

text \<open>
  \<open>f.readline()\<close> on a file opened in text mode: the characters up to the first line
  end, which universal newlines turn into \<open>\n\<close>; the rest of the text when there is no
  line end.
\<close>

fun readline :: "string \<Rightarrow> string" where
  "readline [] = []"
| "readline (c # cs) =
     (if c = CHR 0x0A \<or> c = CHR 0x0D then [CHR 0x0A] else c # readline cs)"

text \<open>
  \<open>int(s)\<close> on a string, base 10: surrounding whitespace, one optional sign, then
  digits, where single underscores may stand between two digits. Anything else raises
  ValueError. (The limit on the number of digits of recent interpreters is not modelled.)
\<close>

fun digits_ok :: "string \<Rightarrow> bool" where
  "digits_ok [] = False"
| "digits_ok [c] = isdigit c"
| "digits_ok (c # d # cs) =
     (isdigit c \<and> (if d = CHR ''_'' then digits_ok cs else digits_ok (d # cs)))"

definition digits_value :: "string \<Rightarrow> int" where
  "digits_value s = foldl (\<lambda>a c. 10 * a + digit_value c) 0 (filter (\<lambda>c. c \<noteq> CHR ''_'') s)"

definition int_of_str :: "string \<Rightarrow> error + int" where
  "int_of_str s =
     (let t = strip s;
          negative = (t \<noteq> [] \<and> hd t = CHR ''-'');
          body = (if t \<noteq> [] \<and> (hd t = CHR ''-'' \<or> hd t = CHR ''+'') then tl t else t)
      in if digits_ok body
         then Inr (if negative then - digits_value body else digits_value body)
         else Inl ValueError)"

text \<open>\<open>xs[i]\<close> for a non-negative index: IndexError out of range.\<close>

definition getitem :: "'a list \<Rightarrow> nat \<Rightarrow> error + 'a" where
  "getitem xs i = (if i < length xs then Inr (xs ! i) else Inl IndexError)"

text \<open>\<open>[int(p) for p in ps]\<close>, evaluated from the left: the first exception ends it.\<close>

fun ints_of_strs :: "string list \<Rightarrow> error + int list" where
  "ints_of_strs [] = Inr []"
| "ints_of_strs (p # ps) =
     (case int_of_str p of
        Inl e \<Rightarrow> Inl e
      | Inr n \<Rightarrow> (case ints_of_strs ps of Inl e \<Rightarrow> Inl e | Inr ns \<Rightarrow> Inr (n # ns)))"

text \<open>
  Python floats are modelled by the real number they stand for: rounding is not
  modelled. What is modelled of the floating-point format is the exception of the true
  division \<open>a / b\<close> of two integers: ZeroDivisionError for \<open>b = 0\<close>, and OverflowError
  when the quotient rounds to a magnitude beyond the largest double, that is from
  \<open>2^1024 - 2^970\<close> on.
\<close>

definition float_overflow :: "real \<Rightarrow> bool" where
  "float_overflow x \<longleftrightarrow> 2 ^ 1024 - 2 ^ 970 \<le> \<bar>x\<bar>"

definition true_div :: "int \<Rightarrow> int \<Rightarrow> error + real" where
  "true_div a b =
     (if b = 0 then Inl ZeroDivisionError
      else if float_overflow (real_of_int a / real_of_int b) then Inl OverflowError
      else Inr (real_of_int a / real_of_int b))"

section \<open>hardware\_monitor.py: CpuUsageTracker\<close>

record CpuUsageTracker =
  last_idle :: int
  last_total :: int
  initialized :: bool

text \<open>
  The counters source \<open>/proc/stat\<close> is an input: \<open>None\<close> when it cannot be opened or
  read, its text otherwise. Both \<open>_init_values\<close> and \<open>get_usage\<close> start with the same
  statements, which read the first line and compute \<open>idle\<close> and \<open>total\<close>.
\<close>

definition read_counters :: "string option \<Rightarrow> error + (int \<times> int)" where
  "read_counters source =
     (case source of
        None \<Rightarrow> Inl OSError
      | Some text \<Rightarrow>
          (let line = readline text;
               parts = split line
           in case getitem parts 4 of
                Inl e \<Rightarrow> Inl e
              | Inr p4 \<Rightarrow>
             (case int_of_str p4 of
                Inl e \<Rightarrow> Inl e
              | Inr idle4 \<Rightarrow>
             (case getitem parts 5 of
                Inl e \<Rightarrow> Inl e
              | Inr p5 \<Rightarrow>
             (case int_of_str p5 of
                Inl e \<Rightarrow> Inl e
              | Inr idle5 \<Rightarrow>
             (case ints_of_strs (take 10 (drop 1 parts)) of
                Inl e \<Rightarrow> Inl e
              | Inr ns \<Rightarrow> Inr (idle4 + idle5, sum_list ns)))))))"

text \<open>\<open>_init_values\<close>: any exception is swallowed and leaves the tracker as it was.\<close>

definition init_values :: "CpuUsageTracker \<Rightarrow> string option \<Rightarrow> CpuUsageTracker" where
  "init_values self source =
     (case read_counters source of
        Inl e \<Rightarrow> self
      | Inr (idle, total') \<Rightarrow>
          self\<lparr>last_idle := idle, last_total := total', initialized := True\<rparr>)"

text \<open>\<open>CpuUsageTracker()\<close>; the argument is the counters source as the constructor reads it.\<close>

definition CpuUsageTracker_init :: "string option \<Rightarrow> CpuUsageTracker" where
  "CpuUsageTracker_init source =
     init_values \<lparr>last_idle = 0, last_total = 0, initialized = False\<rparr> source"

text \<open>
  The body of the \<open>try\<close> of \<open>get_usage\<close>: its value or its exception, and the tracker as
  the body leaves it (the counters are stored before the division).
\<close>

definition get_usage_try :: "CpuUsageTracker \<Rightarrow> string option \<Rightarrow> (error + real) \<times> CpuUsageTracker" where
  "get_usage_try self source =
     (case read_counters source of
        Inl e \<Rightarrow> (Inl e, self)
      | Inr (idle, total') \<Rightarrow>
          if \<not> initialized self
          then (Inr 0, self\<lparr>last_idle := idle, last_total := total', initialized := True\<rparr>)
          else
            (let idle_delta = idle - last_idle self;
                 total_delta = total' - last_total self;
                 self' = self\<lparr>last_idle := idle, last_total := total'\<rparr>
             in if total_delta \<le> 0 then (Inr 0, self')
                else (case true_div idle_delta total_delta of
                        Inl e \<Rightarrow> (Inl e, self')
                      | Inr q \<Rightarrow> (Inr (max 0 (min 100 (100 * (1 - q)))), self'))))"

text \<open>\<open>get_usage\<close>: \<open>except Exception\<close> turns every exception of the body into 0.0.\<close>

definition get_usage :: "CpuUsageTracker \<Rightarrow> string option \<Rightarrow> real \<times> CpuUsageTracker" where
  "get_usage self source =
     (case get_usage_try self source of
        (Inl e, self') \<Rightarrow> (0, self')
      | (Inr usage, self') \<Rightarrow> (usage, self'))"

text \<open>
  Two contents of the counters source used in the examples: idle 100 of total 1000, then
  idle 150 of total 1200.
\<close>

definition stat_100_1000 :: string where
  "stat_100_1000 = ''cpu  900 0 0 100 0 0 0 0 0 0''"

definition stat_150_1200 :: string where
  "stat_150_1200 = ''cpu  1050 0 0 150 0 0 0 0 0 0''"

section \<open>hardware\_monitor.py: the readings, GPU detection and get\_gpu\_data\<close>

text \<open>
  A float field of a reading is a finite number, an infinity or a NaN (a sensor file may
  hold such a text). \<open>int(x)\<close> truncates a finite float towards zero and raises on the
  others.
\<close>

datatype pyfloat = Finite real | PosInf | NegInf | NaN

fun int_of_float :: "pyfloat \<Rightarrow> error + int" where
  "int_of_float (Finite x) = Inr (if 0 \<le> x then \<lfloor>x\<rfloor> else \<lceil>x\<rceil>)"
| "int_of_float PosInf = Inl OverflowError"
| "int_of_float NegInf = Inl OverflowError"
| "int_of_float NaN = Inl ValueError"

record CpuData =
  name :: string
  temperature :: pyfloat
  usage :: pyfloat
  frequency :: pyfloat
  power' :: pyfloat
  fan_rpm :: int
  is_valid :: bool

record GpuData =
  name :: string
  temperature :: pyfloat
  usage :: pyfloat
  frequency :: pyfloat
  memory_usage :: pyfloat
  fan_rpm :: int
  power' :: pyfloat
  vendor :: string
  is_valid :: bool

text \<open>\<open>GpuData()\<close>: the defaults of the dataclass.\<close>

definition GpuData_default :: GpuData where
  "GpuData_default =
     \<lparr>name = [], temperature = Finite 0, usage = Finite 0, frequency = Finite 0,
      memory_usage = Finite 0, fan_rpm = 0, power' = Finite 0, vendor = [],
      is_valid = False\<rparr>"

text \<open>
  The attributes of a \<open>HardwareMonitor\<close> that detection and \<open>get_gpu_data\<close> use (the
  hwmon cache is left out).
\<close>

record HardwareMonitor =
  cpu_usage_tracker :: CpuUsageTracker
  gpu_vendor :: "string option"
  nvidia_available :: bool
  amd_gpu_path :: "string option"
  intel_gpu_path :: "string option"

text \<open>
  An entry of \<open>/sys/class/drm\<close>, as \<open>_detect_gpu\<close> sees it: its name, whether
  \<open>device\<close> exists, the file \<open>device/vendor\<close>, and the entries of \<open>device/hwmon\<close>
  (\<open>None\<close> when that directory does not exist).
\<close>

datatype sysfs_file = Missing | Unreadable | Content string

record drm_card =
  card_name :: string
  device_exists :: bool
  vendor_file :: sysfs_file
  hwmon_entries :: "string list option"

definition startswith :: "string \<Rightarrow> string \<Rightarrow> bool" where
  "startswith s prefix \<longleftrightarrow> take (length prefix) s = prefix"

fun detect_in_cards :: "HardwareMonitor \<Rightarrow> drm_card list \<Rightarrow> error + HardwareMonitor" where
  "detect_in_cards self [] = Inr self"
| "detect_in_cards self (entry # cards) =
     (if \<not> startswith (card_name entry) ''card'' \<or> CHR ''-'' \<in> set (card_name entry)
      then detect_in_cards self cards
      else if \<not> device_exists entry then detect_in_cards self cards
      else
        (case vendor_file entry of
           Missing \<Rightarrow> detect_in_cards self cards
         | Unreadable \<Rightarrow> Inl OSError
         | Content text \<Rightarrow>
             (let vendor_text = strip text
              in if vendor_text = ''0x1002''
                 then (case hwmon_entries entry of
                         None \<Rightarrow> detect_in_cards self cards
                       | Some [] \<Rightarrow> detect_in_cards self cards
                       | Some (hwmon # others) \<Rightarrow>
                           Inr (self\<lparr>amd_gpu_path := Some hwmon, gpu_vendor := Some ''amd''\<rparr>))
                 else if vendor_text = ''0x8086''
                 then Inr (self\<lparr>intel_gpu_path :=
                                   Some (''/sys/class/drm/'' @ card_name entry @ ''/device''),
                                 gpu_vendor := Some ''intel''\<rparr>)
                 else detect_in_cards self cards)))"

text \<open>\<open>_detect_gpu\<close>; the argument \<open>drm\<close> is \<open>None\<close> when \<open>/sys/class/drm\<close> does not exist.\<close>

definition detect_gpu :: "HardwareMonitor \<Rightarrow> drm_card list option \<Rightarrow> error + HardwareMonitor" where
  "detect_gpu self drm =
     (if nvidia_available self then Inr (self\<lparr>gpu_vendor := Some ''nvidia''\<rparr>)
      else (case drm of
              None \<Rightarrow> Inr self
            | Some cards \<Rightarrow> detect_in_cards self cards))"

text \<open>
  What the sensors give in one cycle. The three vendor readers run an external tool or
  read sysfs: their results are inputs here, as are the results of \<open>get_cpu_data\<close>,
  \<open>_get_memory_usage\<close> and \<open>_get_disk_usage\<close>.
\<close>

record sensors =
  cpu_reading :: CpuData
  nvidia_gpu_data :: GpuData
  amd_gpu_data :: GpuData
  intel_gpu_data :: GpuData
  memory_usage_now :: int
  disk_usage_now :: int

definition get_gpu_data :: "sensors \<Rightarrow> HardwareMonitor \<Rightarrow> GpuData" where
  "get_gpu_data sens self =
     (if gpu_vendor self = Some ''nvidia'' then nvidia_gpu_data sens
      else if gpu_vendor self = Some ''amd'' then amd_gpu_data sens
      else if gpu_vendor self = Some ''intel'' then intel_gpu_data sens
      else GpuData_default)"

section \<open>lk\_display.py: the update cycle\<close>

record LKDisplay =
  hid :: HidDevice
  monitor :: HardwareMonitor

text \<open>The arguments of a call \<open>set_cpu_data(int(..), ..)\<close>, evaluated from the left.\<close>

definition cpu_arguments :: "CpuData \<Rightarrow> error + (int \<times> int \<times> int \<times> int \<times> int)" where
  "cpu_arguments cpu =
     (case int_of_float (CpuData.temperature cpu) of Inl e \<Rightarrow> Inl e | Inr t \<Rightarrow>
     (case int_of_float (CpuData.usage cpu) of Inl e \<Rightarrow> Inl e | Inr u \<Rightarrow>
     (case int_of_float (CpuData.frequency cpu) of Inl e \<Rightarrow> Inl e | Inr f \<Rightarrow>
     (case int_of_float (CpuData.power' cpu) of Inl e \<Rightarrow> Inl e | Inr w \<Rightarrow>
        Inr (t, u, f, CpuData.fan_rpm cpu, w)))))"

definition gpu_arguments :: "GpuData \<Rightarrow> error + (int \<times> int \<times> int \<times> int \<times> int)" where
  "gpu_arguments gpu =
     (case int_of_float (GpuData.temperature gpu) of Inl e \<Rightarrow> Inl e | Inr t \<Rightarrow>
     (case int_of_float (GpuData.usage gpu) of Inl e \<Rightarrow> Inl e | Inr u \<Rightarrow>
     (case int_of_float (GpuData.frequency gpu) of Inl e \<Rightarrow> Inl e | Inr f \<Rightarrow>
     (case int_of_float (GpuData.power' gpu) of Inl e \<Rightarrow> Inl e | Inr w \<Rightarrow>
        Inr (t, u, f, GpuData.fan_rpm gpu, w)))))"

text \<open>
  \<open>_update_cycle\<close> from the point where devices are known to be connected: the readings
  are written into the snapshot and the snapshot is sent.
\<close>

definition collect_and_send ::
  "system \<Rightarrow> sensors \<Rightarrow> LKDisplay \<Rightarrow> error + LKDisplay \<times> os_call list" where
  "collect_and_send sys sens self =
     (case cpu_arguments (cpu_reading sens) of
        Inl e \<Rightarrow> Inl e
      | Inr (ct, cu, cf, cr, cw) \<Rightarrow>
     (let hid1 = set_cpu_data (hid self) ct cu cf cr cw;
          gpu = get_gpu_data sens (monitor self)
      in case (if GpuData.is_valid gpu
               then (case gpu_arguments gpu of
                       Inl e \<Rightarrow> Inl e
                     | Inr (gt, gu, gf, gr, gw) \<Rightarrow> Inr (set_gpu_data hid1 gt gu gf gr gw))
               else Inr (set_gpu_data hid1 0 0 0 0 0)) of
           Inl e \<Rightarrow> Inl e
         | Inr hid2 \<Rightarrow>
        (let hid3 = set_memory_data hid2 (memory_usage_now sens) 0;
             hid4 = set_disk_data hid3 (disk_usage_now sens) 0
         in case send_data sys hid4 of
              Inl e \<Rightarrow> Inl e
            | Inr (sent, hid5, calls) \<Rightarrow> Inr (self\<lparr>hid := hid5\<rparr>, calls))))"

text \<open>
  \<open>_update_cycle\<close>: with no device connected the devices are scanned and opened again,
  and the cycle ends there when none was opened.
\<close>

definition update_cycle ::
  "system \<Rightarrow> sensors \<Rightarrow> LKDisplay \<Rightarrow> error + LKDisplay \<times> os_call list" where
  "update_cycle sys sens self =
     (if get_online_device_count (hid self) = 0
      then (case open_devices sys (hid self) of
              (count, hid1) \<Rightarrow>
                if count = 0 then Inr (self\<lparr>hid := hid1\<rparr>, [])
                else collect_and_send sys sens (self\<lparr>hid := hid1\<rparr>))
      else collect_and_send sys sens self)"

text \<open>
  The GPU fields of the snapshot are all zero; the GPU bytes of a packet are all zero,
  for a Family A packet (report id 0xB0) and for a Family B packet (report id 0x00).
\<close>

definition gpu_fields_zero :: "SensorData \<Rightarrow> bool" where
  "gpu_fields_zero d \<longleftrightarrow>
     gpu_temp d = 0 \<and> gpu_usage d = 0 \<and> gpu_freq d = 0 \<and> gpu_fan_rpm d = 0 \<and> gpu_power d = 0"

definition gpu_bytes_zero :: "bytes \<Rightarrow> bool" where
  "gpu_bytes_zero packet \<longleftrightarrow>
     (packet ! 0 = 0xB0 \<and> list_all (\<lambda>i. packet ! i = 0) [3, 9, 10, 11, 12, 16, 17, 18]) \<or>
     (packet ! 0 = 0x00 \<and> list_all (\<lambda>i. packet ! i = 0) [3, 16, 17, 18, 31, 32, 35, 36])"

text \<open>An example: readings of a machine without GPU backend, and its display object.\<close>

definition example_sensors :: sensors where
  "example_sensors =
     \<lparr>cpu_reading = \<lparr>CpuData.name = ''CPU'', temperature = Finite 45.5, usage = Finite 25,
                      frequency = Finite 3500, power' = Finite 0, fan_rpm = 0, is_valid = True\<rparr>,
      nvidia_gpu_data = GpuData_default,
      amd_gpu_data = GpuData_default,
      intel_gpu_data = GpuData_default,
      memory_usage_now = 60,
      disk_usage_now = 40\<rparr>"

definition example_display :: LKDisplay where
  "example_display =
     \<lparr>hid = example_device,
      monitor = \<lparr>cpu_usage_tracker = \<lparr>last_idle = 100, last_total = 1000, initialized = True\<rparr>,
                 gpu_vendor = None, nvidia_available = False,
                 amd_gpu_path = None, intel_gpu_path = None\<rparr>\<rparr>"

section \<open>Properties of the packet encoder\<close>

lemma and_255_mod: "(x::int) AND 255 = x mod 256"
  using take_bit_eq_mask[of 8 x] by (simp add: take_bit_eq_mod mask_eq_exp_minus_1)

lemma and_255_range: "0 \<le> (x::int) AND 255 \<and> x AND 255 \<le> 255"
  by (simp add: and_255_mod)

lemma assign_all_length: "assign_all p as = Inr q \<Longrightarrow> length q = length p"
  by (induction p as rule: assign_all.induct) (auto simp: setitem_def split: if_splits)

text \<open>After a sequence of assignments a byte holds the last value assigned to it.\<close>

lemma assign_all_nth:
  "assign_all p as = Inr q \<Longrightarrow> i < length p \<Longrightarrow>
     q ! i = (case map_of (rev as) i of None \<Rightarrow> p ! i | Some v \<Rightarrow> v)"
proof (induction p as rule: assign_all.induct)
  case (1 packet)
  then show ?case by simp
next
  case (2 packet j v rest)
  then show ?case
    by (auto simp: setitem_def map_add_def nth_list_update split: if_splits option.splits)
qed

lemma assign_all_ok:
  "(\<exists>q. assign_all p as = Inr q) \<longleftrightarrow>
   (\<forall>(i, v) \<in> set as. i < length p \<and> 0 \<le> v \<and> v \<le> 255)"
  by (induction p as rule: assign_all.induct) (auto simp: setitem_def split: if_splits)

lemma gamdias_length:
  "fst (build_gamdias_packet now self) = Inr p \<Longrightarrow> length p = 65"
  by (auto simp: build_gamdias_packet_def bytearray_def REPORT_SIZE_def dest: assign_all_length)

lemma hwcx_length:
  "fst (build_hwcx_packet now self) = Inr p \<Longrightarrow> length p = 65"
  by (auto simp: build_hwcx_packet_def bytearray_def REPORT_SIZE_def dest: assign_all_length)

lemma gamdias_nth:
  assumes "fst (build_gamdias_packet now self) = Inr p" and "i < 65"
  shows "p ! i = (case map_of (rev (gamdias_assignments now (sensor_data self))) i of
                    None \<Rightarrow> 0 | Some v \<Rightarrow> v)"
proof -
  have a: "assign_all (bytearray REPORT_SIZE) (gamdias_assignments now (sensor_data self)) = Inr p"
    using assms(1) by (simp add: build_gamdias_packet_def)
  have b: "i < length (bytearray REPORT_SIZE)"
    using assms(2) by (simp add: bytearray_def REPORT_SIZE_def)
  show ?thesis
    using assign_all_nth[OF a b] assms(2)
    by (simp add: bytearray_def REPORT_SIZE_def split: option.splits)
qed

lemma hwcx_nth:
  assumes "fst (build_hwcx_packet now self) = Inr p" and "i < 65"
  shows "p ! i = (case map_of (rev (hwcx_assignments now (sensor_data self))) i of
                    None \<Rightarrow> 0 | Some v \<Rightarrow> v)"
proof -
  have a: "assign_all (bytearray REPORT_SIZE) (hwcx_assignments now (sensor_data self)) = Inr p"
    using assms(1) by (simp add: build_hwcx_packet_def)
  have b: "i < length (bytearray REPORT_SIZE)"
    using assms(2) by (simp add: bytearray_def REPORT_SIZE_def)
  show ?thesis
    using assign_all_nth[OF a b] assms(2)
    by (simp add: bytearray_def REPORT_SIZE_def split: option.splits)
qed

text \<open>
  The four clamping setters keep their fields in range, and the other two setters do not
  touch those fields: \<open>clamped\<close> holds after every sequence of setter calls.
\<close>

lemma clamped_call_setter:
  "clamped (sensor_data self) \<Longrightarrow> clamped (sensor_data (call_setter self c))"
  by (cases c)
     (simp_all add: clamped_def set_cpu_data_def set_gpu_data_def set_memory_data_def
        set_disk_data_def set_network_speed_def set_display_mode_def)

lemma clamped_call_setters:
  "clamped (sensor_data self) \<Longrightarrow> clamped (sensor_data (call_setters self calls))"
  unfolding call_setters_def
  by (induction calls arbitrary: self) (simp_all add: clamped_call_setter)

lemma clamped_init: "clamped (sensor_data HidDevice_init)"
  by (simp add: clamped_def HidDevice_init_def SensorData_default_def)

text \<open>
  With clamped fields and a clock in range the Family A builder always returns a packet;
  the Family B builder returns one exactly when the display mode, which no setter clamps,
  fits a byte.
\<close>

lemma build_gamdias_packet_returns:
  assumes "clamped (sensor_data self)" and "valid_datetime now"
  shows "\<exists>p. fst (build_gamdias_packet now self) = Inr p"
proof -
  have "\<forall>(i, v) \<in> set (gamdias_assignments now (sensor_data self)).
          i < length (bytearray REPORT_SIZE) \<and> 0 \<le> v \<and> v \<le> 255"
    using assms
    by (simp add: gamdias_assignments_def bytearray_def REPORT_SIZE_def clamped_def
          valid_datetime_def and_255_range)
  then show ?thesis
    by (simp add: build_gamdias_packet_def assign_all_ok)
qed

lemma build_hwcx_packet_returns:
  assumes "clamped (sensor_data self)" and "valid_datetime now"
  shows "(\<exists>p. fst (build_hwcx_packet now self) = Inr p) \<longleftrightarrow>
         0 \<le> display_mode (sensor_data self) \<and> display_mode (sensor_data self) \<le> 255"
proof -
  have "(\<forall>(i, v) \<in> set (hwcx_assignments now (sensor_data self)).
          i < length (bytearray REPORT_SIZE) \<and> 0 \<le> v \<and> v \<le> 255) \<longleftrightarrow>
        0 \<le> display_mode (sensor_data self) \<and> display_mode (sensor_data self) \<le> 255"
    using assms
    by (simp add: hwcx_assignments_def bytearray_def REPORT_SIZE_def clamped_def
          valid_datetime_def and_255_range)
  then show ?thesis
    by (simp add: build_hwcx_packet_def assign_all_ok)
qed

lemma gamdias_same_outside_clock:
  assumes "sensor_data self1 = sensor_data self2"
    and "fst (build_gamdias_packet now1 self1) = Inr p1"
    and "fst (build_gamdias_packet now2 self2) = Inr p2"
    and "i < 65" and "i \<notin> {19, 20, 21}"
  shows "p1 ! i = p2 ! i"
  using gamdias_nth[OF assms(2) assms(4)] gamdias_nth[OF assms(3) assms(4)] assms(1,5)
  by (simp add: gamdias_assignments_def)

lemma hwcx_same_outside_clock:
  assumes "sensor_data self1 = sensor_data self2"
    and "fst (build_hwcx_packet now1 self1) = Inr p1"
    and "fst (build_hwcx_packet now2 self2) = Inr p2"
    and "i < 65" and "i \<notin> {4, 5, 6, 8, 9, 10, 11, 12}"
  shows "p1 ! i = p2 ! i"
  using hwcx_nth[OF assms(2) assms(4)] hwcx_nth[OF assms(3) assms(4)] assms(1,5)
  by (simp add: hwcx_assignments_def)

lemma gamdias_clock_bytes:
  assumes "fst (build_gamdias_packet now self) = Inr p"
  shows "p ! 19 = hour now \<and> p ! 20 = minute now \<and> p ! 21 = second now"
  using gamdias_nth[OF assms, of 19] gamdias_nth[OF assms, of 20] gamdias_nth[OF assms, of 21]
  by (simp add: gamdias_assignments_def)

lemma be16_split:
  assumes "0 \<le> (x::int)" and "x \<le> 65535"
  shows "(drop_bit 8 x AND 255) * 256 + (x AND 255) = x"
proof -
  have "x div 256 < 256" using assms by simp
  moreover have "0 \<le> x div 256" using assms by simp
  ultimately have "x div 256 mod 256 = x div 256" by simp
  then show ?thesis by (simp add: and_255_mod drop_bit_eq_div)
qed

lemma hwcx_clock_bytes:
  assumes "fst (build_hwcx_packet now self) = Inr p"
  shows "p ! 4 = hour now \<and> p ! 5 = minute now \<and> p ! 6 = second now \<and>
         p ! 10 = month now \<and> p ! 11 = day now \<and> p ! 12 = weekday now \<and>
         (0 \<le> year now \<and> year now \<le> 65535 \<longrightarrow> be16 p 8 = year now)"
proof -
  have "p ! 8 = drop_bit 8 (year now) AND 255" "p ! 9 = year now AND 255"
    using hwcx_nth[OF assms, of 8] hwcx_nth[OF assms, of 9]
    by (simp_all add: hwcx_assignments_def)
  then have "0 \<le> year now \<and> year now \<le> 65535 \<longrightarrow> be16 p 8 = year now"
    by (simp add: be16_def be16_split)
  moreover have "p ! 4 = hour now \<and> p ! 5 = minute now \<and> p ! 6 = second now \<and>
         p ! 10 = month now \<and> p ! 11 = day now \<and> p ! 12 = weekday now"
    using hwcx_nth[OF assms, of 4] hwcx_nth[OF assms, of 5] hwcx_nth[OF assms, of 6]
      hwcx_nth[OF assms, of 10] hwcx_nth[OF assms, of 11] hwcx_nth[OF assms, of 12]
    by (simp add: hwcx_assignments_def)
  ultimately show ?thesis by blast
qed

lemma gamdias_unassigned_zero:
  assumes "fst (build_gamdias_packet now self) = Inr p" and "26 \<le> i" and "i < 65"
  shows "p ! i = 0"
  using gamdias_nth[OF assms(1) assms(3)] assms(2)
  by (simp add: gamdias_assignments_def)

lemma hwcx_unassigned_zero:
  assumes "fst (build_hwcx_packet now self) = Inr p" and "i < 65"
    and "i \<in> {37, 38, 39, 40} \<or> 50 \<le> i"
  shows "p ! i = 0"
  using hwcx_nth[OF assms(1) assms(2)] assms(3)
  by (auto simp add: hwcx_assignments_def)

lemma gamdias_not_assigned_zero:
  assumes "fst (build_gamdias_packet now self) = Inr p" and "i < 65"
    and "i \<notin> fst ` set (gamdias_assignments now (sensor_data self))"
  shows "p ! i = 0"
proof -
  have "map_of (rev (gamdias_assignments now (sensor_data self))) i = None"
    using assms(3) by (simp add: map_of_eq_None_iff)
  then show ?thesis using gamdias_nth[OF assms(1) assms(2)] by simp
qed

lemma hwcx_not_assigned_zero:
  assumes "fst (build_hwcx_packet now self) = Inr p" and "i < 65"
    and "i \<notin> fst ` set (hwcx_assignments now (sensor_data self))"
  shows "p ! i = 0"
proof -
  have "map_of (rev (hwcx_assignments now (sensor_data self))) i = None"
    using assms(3) by (simp add: map_of_eq_None_iff)
  then show ?thesis using hwcx_nth[OF assms(1) assms(2)] by simp
qed

text \<open>
  C1. If the snapshot holds a CPU frequency of 3500, then in every packet that the
  Family A builder returns, and in every packet that the Family B builder returns, bytes
  14 and 15 read as a 16-bit big-endian integer give 3500. With clamped fields and a
  clock in range the Family A builder does return a packet, and the Family B builder
  does exactly when the display mode fits a byte.
\<close>

theorem cpu_freq_round_trip:
  assumes "cpu_freq (sensor_data self) = 3500"
  shows "(\<forall>p. fst (build_gamdias_packet now self) = Inr p \<longrightarrow> be16 p 14 = 3500) \<and>
         (\<forall>p. fst (build_hwcx_packet now self) = Inr p \<longrightarrow> be16 p 14 = 3500) \<and>
         (clamped (sensor_data self) \<and> valid_datetime now \<longrightarrow>
            (\<exists>p. fst (build_gamdias_packet now self) = Inr p) \<and>
            ((\<exists>p. fst (build_hwcx_packet now self) = Inr p) \<longleftrightarrow>
               0 \<le> display_mode (sensor_data self) \<and> display_mode (sensor_data self) \<le> 255))"
proof -
  have a: "\<forall>p. fst (build_gamdias_packet now self) = Inr p \<longrightarrow> be16 p 14 = 3500"
  proof (intro allI impI)
    fix p assume b: "fst (build_gamdias_packet now self) = Inr p"
    have "p ! 14 = 13" "p ! 15 = 172"
      using gamdias_nth[OF b, of 14] gamdias_nth[OF b, of 15] assms
      by (simp_all add: gamdias_assignments_def)
    then show "be16 p 14 = 3500" by (simp add: be16_def)
  qed
  have b: "\<forall>p. fst (build_hwcx_packet now self) = Inr p \<longrightarrow> be16 p 14 = 3500"
  proof (intro allI impI)
    fix p assume b: "fst (build_hwcx_packet now self) = Inr p"
    have "p ! 14 = 13" "p ! 15 = 172"
      using hwcx_nth[OF b, of 14] hwcx_nth[OF b, of 15] assms
      by (simp_all add: hwcx_assignments_def)
    then show "be16 p 14 = 3500" by (simp add: be16_def)
  qed
  show ?thesis
    using a b build_gamdias_packet_returns[of self now] build_hwcx_packet_returns[of self now]
    by blast
qed

theorem cpu_freq_round_trip_witness:
  "cpu_freq (sensor_data (set_cpu_data HidDevice_init 45 25 3500 0 0)) = 3500 \<and>
   clamped (sensor_data (set_cpu_data HidDevice_init 45 25 3500 0 0)) \<and>
   valid_datetime example_now \<and>
   fst (build_gamdias_packet example_now (set_cpu_data HidDevice_init 45 25 3500 0 0)) =
     Inr ([176, 1, 0, 0, 45, 0, 25, 0, 0, 0, 0, 0, 0, 0, 13, 172, 0, 0, 0, 12, 30, 59]
          @ replicate 43 0) \<and>
   be16 ([176, 1, 0, 0, 45, 0, 25, 0, 0, 0, 0, 0, 0, 0, 13, 172, 0, 0, 0, 12, 30, 59]
          @ replicate 43 0) 14 = 3500 \<and>
   fst (build_hwcx_packet example_now (set_cpu_data HidDevice_init 45 25 3500 0 0)) =
     Inr ([0, 2, 45, 0, 12, 30, 59, 0, 7, 234, 11, 3, 1, 25, 13, 172] @ replicate 49 0) \<and>
   be16 ([0, 2, 45, 0, 12, 30, 59, 0, 7, 234, 11, 3, 1, 25, 13, 172] @ replicate 49 0) 14 = 3500"
proof -
  have h: "cpu_freq (sensor_data (set_cpu_data HidDevice_init 45 25 3500 0 0)) = 3500"
    by (simp add: set_cpu_data_def)
  have a: "fst (build_gamdias_packet example_now (set_cpu_data HidDevice_init 45 25 3500 0 0)) =
     Inr ([176, 1, 0, 0, 45, 0, 25, 0, 0, 0, 0, 0, 0, 0, 13, 172, 0, 0, 0, 12, 30, 59]
          @ replicate 43 0)"
    by code_simp
  have b: "fst (build_hwcx_packet example_now (set_cpu_data HidDevice_init 45 25 3500 0 0)) =
     Inr ([0, 2, 45, 0, 12, 30, 59, 0, 7, 234, 11, 3, 1, 25, 13, 172] @ replicate 49 0)"
    by code_simp
  have c: "clamped (sensor_data (set_cpu_data HidDevice_init 45 25 3500 0 0))"
    by (simp add: clamped_def set_cpu_data_def HidDevice_init_def SensorData_default_def)
  have v: "valid_datetime example_now"
    by (simp add: valid_datetime_def example_now_def)
  show ?thesis
    using cpu_freq_round_trip[OF h, of example_now] h a b c v by blast
qed

text \<open>
  C3. \<open>set_cpu_data\<close> stores \<open>min(100, max(0, usage))\<close> as the CPU usage, for every
  integer. So after a call with usage 150 every packet built holds 100 in the usage byte
  (byte 6 of Family A, byte 13 of Family B), and after a call with usage -10 it holds 0.
\<close>

theorem set_cpu_data_saturates:
  "cpu_usage (sensor_data (set_cpu_data self t u f r w)) = min 100 (max 0 u) \<and>
   (\<forall>p. fst (build_gamdias_packet now (set_cpu_data self t 150 f r w)) = Inr p \<longrightarrow> p ! 6 = 100) \<and>
   (\<forall>p. fst (build_hwcx_packet now (set_cpu_data self t 150 f r w)) = Inr p \<longrightarrow> p ! 13 = 100) \<and>
   (\<forall>p. fst (build_gamdias_packet now (set_cpu_data self t (- 10) f r w)) = Inr p \<longrightarrow> p ! 6 = 0) \<and>
   (\<forall>p. fst (build_hwcx_packet now (set_cpu_data self t (- 10) f r w)) = Inr p \<longrightarrow> p ! 13 = 0)"
proof (intro conjI allI impI)
  show "cpu_usage (sensor_data (set_cpu_data self t u f r w)) = min 100 (max 0 u)"
    by (simp add: set_cpu_data_def)
next
  fix p assume b: "fst (build_gamdias_packet now (set_cpu_data self t 150 f r w)) = Inr p"
  show "p ! 6 = 100"
    using gamdias_nth[OF b, of 6] by (simp add: gamdias_assignments_def set_cpu_data_def)
next
  fix p assume b: "fst (build_hwcx_packet now (set_cpu_data self t 150 f r w)) = Inr p"
  show "p ! 13 = 100"
    using hwcx_nth[OF b, of 13] by (simp add: hwcx_assignments_def set_cpu_data_def)
next
  fix p assume b: "fst (build_gamdias_packet now (set_cpu_data self t (- 10) f r w)) = Inr p"
  show "p ! 6 = 0"
    using gamdias_nth[OF b, of 6] by (simp add: gamdias_assignments_def set_cpu_data_def)
next
  fix p assume b: "fst (build_hwcx_packet now (set_cpu_data self t (- 10) f r w)) = Inr p"
  show "p ! 13 = 0"
    using hwcx_nth[OF b, of 13] by (simp add: hwcx_assignments_def set_cpu_data_def)
qed

theorem set_cpu_data_saturates_witness:
  "fst (build_gamdias_packet example_now (set_cpu_data HidDevice_init 45 150 0 0 0)) =
     Inr ([176, 1, 0, 0, 45, 0, 100] @ replicate 12 0 @ [12, 30, 59] @ replicate 43 0) \<and>
   ([176, 1, 0, 0, 45, 0, 100] @ replicate 12 0 @ [12, 30, 59] @ replicate 43 0) ! 6 = (100::int) \<and>
   fst (build_hwcx_packet example_now (set_cpu_data HidDevice_init 45 150 0 0 0)) =
     Inr ([0, 2, 45, 0, 12, 30, 59, 0, 7, 234, 11, 3, 1, 100] @ replicate 51 0) \<and>
   ([0, 2, 45, 0, 12, 30, 59, 0, 7, 234, 11, 3, 1, 100] @ replicate 51 0) ! 13 = (100::int) \<and>
   fst (build_gamdias_packet example_now (set_cpu_data HidDevice_init 45 (- 10) 0 0 0)) =
     Inr ([176, 1, 0, 0, 45, 0, 0] @ replicate 12 0 @ [12, 30, 59] @ replicate 43 0) \<and>
   ([176, 1, 0, 0, 45, 0, 0] @ replicate 12 0 @ [12, 30, 59] @ replicate 43 0) ! 6 = (0::int) \<and>
   fst (build_hwcx_packet example_now (set_cpu_data HidDevice_init 45 (- 10) 0 0 0)) =
     Inr ([0, 2, 45, 0, 12, 30, 59, 0, 7, 234, 11, 3, 1, 0] @ replicate 51 0) \<and>
   ([0, 2, 45, 0, 12, 30, 59, 0, 7, 234, 11, 3, 1, 0] @ replicate 51 0) ! 13 = (0::int)"
proof -
  have a: "fst (build_gamdias_packet example_now (set_cpu_data HidDevice_init 45 150 0 0 0)) =
     Inr ([176, 1, 0, 0, 45, 0, 100] @ replicate 12 0 @ [12, 30, 59] @ replicate 43 0)"
    by code_simp
  have b: "fst (build_hwcx_packet example_now (set_cpu_data HidDevice_init 45 150 0 0 0)) =
     Inr ([0, 2, 45, 0, 12, 30, 59, 0, 7, 234, 11, 3, 1, 100] @ replicate 51 0)"
    by code_simp
  have c: "fst (build_gamdias_packet example_now (set_cpu_data HidDevice_init 45 (- 10) 0 0 0)) =
     Inr ([176, 1, 0, 0, 45, 0, 0] @ replicate 12 0 @ [12, 30, 59] @ replicate 43 0)"
    by code_simp
  have d: "fst (build_hwcx_packet example_now (set_cpu_data HidDevice_init 45 (- 10) 0 0 0)) =
     Inr ([0, 2, 45, 0, 12, 30, 59, 0, 7, 234, 11, 3, 1, 0] @ replicate 51 0)"
    by code_simp
  show ?thesis
    using set_cpu_data_saturates[of HidDevice_init 45 0 0 0 0 example_now] a b c d by blast
qed

text \<open>
  C8. Two runs of a builder on device objects with equal snapshots return packets of 65
  bytes that agree at every byte outside the clock fields (bytes 19 to 21 of Family A;
  bytes 4 to 6 and 8 to 12 of Family B); the clock fields hold the clock of their own
  run; with equal clocks the two runs return the same result.
\<close>

theorem packet_encoding_deterministic:
  assumes "sensor_data self1 = sensor_data self2"
  shows "(\<forall>p1 p2. fst (build_gamdias_packet now1 self1) = Inr p1 \<and>
                  fst (build_gamdias_packet now2 self2) = Inr p2 \<longrightarrow>
            length p1 = 65 \<and> length p2 = 65 \<and>
            (\<forall>i<65. i \<notin> {19, 20, 21} \<longrightarrow> p1 ! i = p2 ! i) \<and>
            p1 ! 19 = hour now1 \<and> p1 ! 20 = minute now1 \<and> p1 ! 21 = second now1 \<and>
            p2 ! 19 = hour now2 \<and> p2 ! 20 = minute now2 \<and> p2 ! 21 = second now2) \<and>
         (\<forall>p1 p2. fst (build_hwcx_packet now1 self1) = Inr p1 \<and>
                  fst (build_hwcx_packet now2 self2) = Inr p2 \<longrightarrow>
            length p1 = 65 \<and> length p2 = 65 \<and>
            (\<forall>i<65. i \<notin> {4, 5, 6, 8, 9, 10, 11, 12} \<longrightarrow> p1 ! i = p2 ! i) \<and>
            p1 ! 4 = hour now1 \<and> p1 ! 5 = minute now1 \<and> p1 ! 6 = second now1 \<and>
            p1 ! 10 = month now1 \<and> p1 ! 11 = day now1 \<and> p1 ! 12 = weekday now1 \<and>
            (0 \<le> year now1 \<and> year now1 \<le> 65535 \<longrightarrow> be16 p1 8 = year now1) \<and>
            p2 ! 4 = hour now2 \<and> p2 ! 5 = minute now2 \<and> p2 ! 6 = second now2 \<and>
            p2 ! 10 = month now2 \<and> p2 ! 11 = day now2 \<and> p2 ! 12 = weekday now2 \<and>
            (0 \<le> year now2 \<and> year now2 \<le> 65535 \<longrightarrow> be16 p2 8 = year now2)) \<and>
         (now1 = now2 \<longrightarrow>
            fst (build_gamdias_packet now1 self1) = fst (build_gamdias_packet now2 self2) \<and>
            fst (build_hwcx_packet now1 self1) = fst (build_hwcx_packet now2 self2))"
proof (intro conjI)
  show "\<forall>p1 p2. fst (build_gamdias_packet now1 self1) = Inr p1 \<and>
                  fst (build_gamdias_packet now2 self2) = Inr p2 \<longrightarrow>
            length p1 = 65 \<and> length p2 = 65 \<and>
            (\<forall>i<65. i \<notin> {19, 20, 21} \<longrightarrow> p1 ! i = p2 ! i) \<and>
            p1 ! 19 = hour now1 \<and> p1 ! 20 = minute now1 \<and> p1 ! 21 = second now1 \<and>
            p2 ! 19 = hour now2 \<and> p2 ! 20 = minute now2 \<and> p2 ! 21 = second now2"
    using gamdias_length gamdias_same_outside_clock[OF assms] gamdias_clock_bytes
    by blast
next
  show "\<forall>p1 p2. fst (build_hwcx_packet now1 self1) = Inr p1 \<and>
                  fst (build_hwcx_packet now2 self2) = Inr p2 \<longrightarrow>
            length p1 = 65 \<and> length p2 = 65 \<and>
            (\<forall>i<65. i \<notin> {4, 5, 6, 8, 9, 10, 11, 12} \<longrightarrow> p1 ! i = p2 ! i) \<and>
            p1 ! 4 = hour now1 \<and> p1 ! 5 = minute now1 \<and> p1 ! 6 = second now1 \<and>
            p1 ! 10 = month now1 \<and> p1 ! 11 = day now1 \<and> p1 ! 12 = weekday now1 \<and>
            (0 \<le> year now1 \<and> year now1 \<le> 65535 \<longrightarrow> be16 p1 8 = year now1) \<and>
            p2 ! 4 = hour now2 \<and> p2 ! 5 = minute now2 \<and> p2 ! 6 = second now2 \<and>
            p2 ! 10 = month now2 \<and> p2 ! 11 = day now2 \<and> p2 ! 12 = weekday now2 \<and>
            (0 \<le> year now2 \<and> year now2 \<le> 65535 \<longrightarrow> be16 p2 8 = year now2)"
  proof (intro allI impI, elim conjE)
    fix p1 p2
    assume b1: "fst (build_hwcx_packet now1 self1) = Inr p1"
      and b2: "fst (build_hwcx_packet now2 self2) = Inr p2"
    show "length p1 = 65 \<and> length p2 = 65 \<and>
            (\<forall>i<65. i \<notin> {4, 5, 6, 8, 9, 10, 11, 12} \<longrightarrow> p1 ! i = p2 ! i) \<and>
            p1 ! 4 = hour now1 \<and> p1 ! 5 = minute now1 \<and> p1 ! 6 = second now1 \<and>
            p1 ! 10 = month now1 \<and> p1 ! 11 = day now1 \<and> p1 ! 12 = weekday now1 \<and>
            (0 \<le> year now1 \<and> year now1 \<le> 65535 \<longrightarrow> be16 p1 8 = year now1) \<and>
            p2 ! 4 = hour now2 \<and> p2 ! 5 = minute now2 \<and> p2 ! 6 = second now2 \<and>
            p2 ! 10 = month now2 \<and> p2 ! 11 = day now2 \<and> p2 ! 12 = weekday now2 \<and>
            (0 \<le> year now2 \<and> year now2 \<le> 65535 \<longrightarrow> be16 p2 8 = year now2)"
      using hwcx_length[OF b1] hwcx_length[OF b2] hwcx_same_outside_clock[OF assms b1 b2]
        hwcx_clock_bytes[OF b1] hwcx_clock_bytes[OF b2]
      by blast
  qed
next
  show "now1 = now2 \<longrightarrow>
            fst (build_gamdias_packet now1 self1) = fst (build_gamdias_packet now2 self2) \<and>
            fst (build_hwcx_packet now1 self1) = fst (build_hwcx_packet now2 self2)"
    using assms by (simp add: build_gamdias_packet_def build_hwcx_packet_def)
qed

theorem packet_encoding_deterministic_witness:
  "sensor_data (set_cpu_data HidDevice_init 45 25 3500 0 0) =
     sensor_data ((set_cpu_data HidDevice_init 45 25 3500 0 0)\<lparr>initialized_devices := {''/dev/hidraw0''}\<rparr>) \<and>
   fst (build_gamdias_packet example_now (set_cpu_data HidDevice_init 45 25 3500 0 0)) =
     Inr ([176, 1, 0, 0, 45, 0, 25, 0, 0, 0, 0, 0, 0, 0, 13, 172, 0, 0, 0, 12, 30, 59]
          @ replicate 43 0) \<and>
   fst (build_gamdias_packet example_later
          ((set_cpu_data HidDevice_init 45 25 3500 0 0)\<lparr>initialized_devices := {''/dev/hidraw0''}\<rparr>)) =
     Inr ([176, 1, 0, 0, 45, 0, 25, 0, 0, 0, 0, 0, 0, 0, 13, 172, 0, 0, 0, 12, 31, 0]
          @ replicate 43 0) \<and>
   ([176, 1, 0, 0, 45, 0, 25, 0, 0, 0, 0, 0, 0, 0, 13, 172, 0, 0, 0, 12, 30, 59]
          @ replicate 43 0) ! 20 = minute example_now \<and>
   ([176, 1, 0, 0, 45, 0, 25, 0, 0, 0, 0, 0, 0, 0, 13, 172, 0, 0, 0, 12, 31, 0]
          @ replicate 43 0) ! 20 = minute example_later \<and>
   fst (build_hwcx_packet example_now (set_cpu_data HidDevice_init 45 25 3500 0 0)) =
     Inr ([0, 2, 45, 0, 12, 30, 59, 0, 7, 234, 11, 3, 1, 25, 13, 172] @ replicate 49 0) \<and>
   fst (build_hwcx_packet example_later
          ((set_cpu_data HidDevice_init 45 25 3500 0 0)\<lparr>initialized_devices := {''/dev/hidraw0''}\<rparr>)) =
     Inr ([0, 2, 45, 0, 12, 31, 0, 0, 7, 234, 11, 3, 1, 25, 13, 172] @ replicate 49 0) \<and>
   ([0, 2, 45, 0, 12, 30, 59, 0, 7, 234, 11, 3, 1, 25, 13, 172] @ replicate 49 0) ! 5 = minute example_now \<and>
   ([0, 2, 45, 0, 12, 31, 0, 0, 7, 234, 11, 3, 1, 25, 13, 172] @ replicate 49 0) ! 5 = minute example_later \<and>
   be16 ([0, 2, 45, 0, 12, 31, 0, 0, 7, 234, 11, 3, 1, 25, 13, 172] @ replicate 49 0) 8 = year example_later"
proof -
  have h: "sensor_data (set_cpu_data HidDevice_init 45 25 3500 0 0) =
     sensor_data ((set_cpu_data HidDevice_init 45 25 3500 0 0)\<lparr>initialized_devices := {''/dev/hidraw0''}\<rparr>)"
    by simp
  have a1: "fst (build_gamdias_packet example_now (set_cpu_data HidDevice_init 45 25 3500 0 0)) =
     Inr ([176, 1, 0, 0, 45, 0, 25, 0, 0, 0, 0, 0, 0, 0, 13, 172, 0, 0, 0, 12, 30, 59]
          @ replicate 43 0)"
    by code_simp
  have a2: "fst (build_gamdias_packet example_later
          ((set_cpu_data HidDevice_init 45 25 3500 0 0)\<lparr>initialized_devices := {''/dev/hidraw0''}\<rparr>)) =
     Inr ([176, 1, 0, 0, 45, 0, 25, 0, 0, 0, 0, 0, 0, 0, 13, 172, 0, 0, 0, 12, 31, 0]
          @ replicate 43 0)"
    by (simp add: build_gamdias_packet_def gamdias_assignments_def bytearray_def REPORT_SIZE_def
          setitem_def set_cpu_data_def HidDevice_init_def SensorData_default_def example_later_def
          eval_nat_numeral)
  have b1: "fst (build_hwcx_packet example_now (set_cpu_data HidDevice_init 45 25 3500 0 0)) =
     Inr ([0, 2, 45, 0, 12, 30, 59, 0, 7, 234, 11, 3, 1, 25, 13, 172] @ replicate 49 0)"
    by code_simp
  have b2: "fst (build_hwcx_packet example_later
          ((set_cpu_data HidDevice_init 45 25 3500 0 0)\<lparr>initialized_devices := {''/dev/hidraw0''}\<rparr>)) =
     Inr ([0, 2, 45, 0, 12, 31, 0, 0, 7, 234, 11, 3, 1, 25, 13, 172] @ replicate 49 0)"
    by (simp add: build_hwcx_packet_def hwcx_assignments_def bytearray_def REPORT_SIZE_def
          setitem_def set_cpu_data_def HidDevice_init_def SensorData_default_def example_later_def
          eval_nat_numeral)
  have y: "0 \<le> year example_later \<and> year example_later \<le> 65535"
    by (simp add: example_later_def)
  show ?thesis
    using packet_encoding_deterministic[OF h, of example_now example_later] a1 a2 b1 b2 y h
    by metis
qed

text \<open>
  C9. A builder leaves the device object, and with it every field of the snapshot, as it
  was, whether it returns a packet or raises. A returned packet has 65 bytes, and every
  byte to which the layout assigns nothing is zero: bytes 26 to 64 of Family A, bytes 37
  to 40 and 50 to 64 of Family B. With clamped fields and a clock in range the Family A
  builder does return a packet, and the Family B builder does exactly when the display
  mode fits a byte.
\<close>

theorem build_packet_leaves_snapshot:
  "snd (build_gamdias_packet now self) = self \<and>
   sensor_data (snd (build_gamdias_packet now self)) = sensor_data self \<and>
   snd (build_hwcx_packet now self) = self \<and>
   sensor_data (snd (build_hwcx_packet now self)) = sensor_data self \<and>
   (\<forall>p. fst (build_gamdias_packet now self) = Inr p \<longrightarrow>
      length p = 65 \<and>
      (\<forall>i<65. i \<notin> fst ` set (gamdias_assignments now (sensor_data self)) \<longrightarrow> p ! i = 0) \<and>
      (\<forall>i<65. 26 \<le> i \<longrightarrow> p ! i = 0)) \<and>
   (\<forall>p. fst (build_hwcx_packet now self) = Inr p \<longrightarrow>
      length p = 65 \<and>
      (\<forall>i<65. i \<notin> fst ` set (hwcx_assignments now (sensor_data self)) \<longrightarrow> p ! i = 0) \<and>
      (\<forall>i<65. i \<in> {37, 38, 39, 40} \<or> 50 \<le> i \<longrightarrow> p ! i = 0)) \<and>
   (clamped (sensor_data self) \<and> valid_datetime now \<longrightarrow>
      (\<exists>p. fst (build_gamdias_packet now self) = Inr p) \<and>
      ((\<exists>p. fst (build_hwcx_packet now self) = Inr p) \<longleftrightarrow>
         0 \<le> display_mode (sensor_data self) \<and> display_mode (sensor_data self) \<le> 255))"
proof -
  have s: "snd (build_gamdias_packet now self) = self" "snd (build_hwcx_packet now self) = self"
    by (simp_all add: build_gamdias_packet_def build_hwcx_packet_def)
  have a: "\<forall>p. fst (build_gamdias_packet now self) = Inr p \<longrightarrow>
      length p = 65 \<and>
      (\<forall>i<65. i \<notin> fst ` set (gamdias_assignments now (sensor_data self)) \<longrightarrow> p ! i = 0) \<and>
      (\<forall>i<65. 26 \<le> i \<longrightarrow> p ! i = 0)"
    using gamdias_length gamdias_not_assigned_zero gamdias_unassigned_zero by blast
  have b: "\<forall>p. fst (build_hwcx_packet now self) = Inr p \<longrightarrow>
      length p = 65 \<and>
      (\<forall>i<65. i \<notin> fst ` set (hwcx_assignments now (sensor_data self)) \<longrightarrow> p ! i = 0) \<and>
      (\<forall>i<65. i \<in> {37, 38, 39, 40} \<or> 50 \<le> i \<longrightarrow> p ! i = 0)"
    using hwcx_length hwcx_not_assigned_zero hwcx_unassigned_zero by blast
  have r: "clamped (sensor_data self) \<and> valid_datetime now \<longrightarrow>
            (\<exists>p. fst (build_gamdias_packet now self) = Inr p) \<and>
            ((\<exists>p. fst (build_hwcx_packet now self) = Inr p) \<longleftrightarrow>
               0 \<le> display_mode (sensor_data self) \<and> display_mode (sensor_data self) \<le> 255)"
    using build_gamdias_packet_returns[of self now] build_hwcx_packet_returns[of self now]
    by blast
  show ?thesis using s a b r by simp
qed

theorem build_packet_leaves_snapshot_witness:
  "clamped (sensor_data (set_gpu_data HidDevice_init 55 30 1800 1500 120)) \<and>
   valid_datetime example_now \<and>
   fst (build_gamdias_packet example_now (set_gpu_data HidDevice_init 55 30 1800 1500 120)) =
     Inr ([176, 1, 0, 55, 0, 0, 0, 0, 0, 220, 5, 120, 0, 0, 0, 0, 30, 7, 8, 12, 30, 59]
          @ replicate 43 0) \<and>
   (64::nat) < 65 \<and> (26::nat) \<le> 64 \<and>
   ([176, 1, 0, 55, 0, 0, 0, 0, 0, 220, 5, 120, 0, 0, 0, 0, 30, 7, 8, 12, 30, 59]
          @ replicate 43 0) ! 64 = (0::int) \<and>
   fst (build_hwcx_packet example_now (set_gpu_data HidDevice_init 55 30 1800 1500 120)) =
     Inr ([0, 2, 0, 55, 12, 30, 59, 0, 7, 234, 11, 3, 1, 0, 0, 0, 30, 7, 8] @ replicate 12 0
          @ [5, 220, 0, 0, 0, 120] @ replicate 28 0) \<and>
   (38::nat) < 65 \<and> (38::nat) \<in> {37, 38, 39, 40} \<and>
   ([0, 2, 0, 55, 12, 30, 59, 0, 7, 234, 11, 3, 1, 0, 0, 0, 30, 7, 8] @ replicate 12 0
          @ [5, 220, 0, 0, 0, 120] @ replicate 28 0) ! 38 = (0::int) \<and>
   sensor_data (snd (build_hwcx_packet example_now (set_gpu_data HidDevice_init 55 30 1800 1500 120))) =
     sensor_data (set_gpu_data HidDevice_init 55 30 1800 1500 120)"
proof -
  have a: "fst (build_gamdias_packet example_now (set_gpu_data HidDevice_init 55 30 1800 1500 120)) =
     Inr ([176, 1, 0, 55, 0, 0, 0, 0, 0, 220, 5, 120, 0, 0, 0, 0, 30, 7, 8, 12, 30, 59]
          @ replicate 43 0)"
    by code_simp
  have b: "fst (build_hwcx_packet example_now (set_gpu_data HidDevice_init 55 30 1800 1500 120)) =
     Inr ([0, 2, 0, 55, 12, 30, 59, 0, 7, 234, 11, 3, 1, 0, 0, 0, 30, 7, 8] @ replicate 12 0
          @ [5, 220, 0, 0, 0, 120] @ replicate 28 0)"
    by code_simp
  have c: "(64::nat) < 65 \<and> (26::nat) \<le> 64 \<and> (38::nat) < 65 \<and> (38::nat) \<in> {37, 38, 39, 40}"
    by simp
  have k: "clamped (sensor_data (set_gpu_data HidDevice_init 55 30 1800 1500 120))"
    by (simp add: clamped_def set_gpu_data_def HidDevice_init_def SensorData_default_def)
  have v: "valid_datetime example_now"
    by (simp add: valid_datetime_def example_now_def)
  show ?thesis
    using k v build_packet_leaves_snapshot[of example_now "set_gpu_data HidDevice_init 55 30 1800 1500 120"]
      a b c by blast
qed

text \<open>
  C2. \<open>set_network_speed\<close> stores its arguments as they are, and \<open>set_display_mode\<close>
  does too. After \<open>set_network_speed(5000000000, -1)\<close> the snapshot holds an upload rate
  above \<open>2^32 - 1\<close> and a negative download rate; the Family B builder cuts them to their
  low 32 bits (bytes 41 to 44 are 0x2A, 0x05, 0xF2, 0x00, bytes 45 to 48 are all 0xFF).
  After \<open>set_display_mode(256)\<close> the Family B builder raises ValueError at byte 49.
\<close>

theorem network_speed_not_clamped:
  "net_upload (sensor_data (call_setters HidDevice_init [SetNetworkSpeed 5000000000 (- 1)])) = 5000000000 \<and>
   net_download (sensor_data (call_setters HidDevice_init [SetNetworkSpeed 5000000000 (- 1)])) = - 1 \<and>
   fst (build_hwcx_packet example_now (call_setters HidDevice_init [SetNetworkSpeed 5000000000 (- 1)])) =
     Inr ([0, 2, 0, 0, 12, 30, 59, 0, 7, 234, 11, 3, 1] @ replicate 28 0
          @ [42, 5, 242, 0, 255, 255, 255, 255, 0] @ replicate 15 0) \<and>
   fst (build_hwcx_packet example_now (call_setters HidDevice_init [SetDisplayMode 256])) =
     Inl ValueError"
  by code_simp

section \<open>Properties of the CPU usage tracker\<close>

lemma no_float_overflow:
  assumes "0 < (b::int)" and "\<bar>a\<bar> < 2 ^ 1023"
  shows "\<not> float_overflow (real_of_int a / real_of_int b)"
proof -
  have b1: "1 \<le> real_of_int b" using assms(1) by simp
  have "\<bar>real_of_int a / real_of_int b\<bar> = \<bar>real_of_int a\<bar> / real_of_int b"
    using assms(1) by simp
  also have "\<dots> \<le> \<bar>real_of_int a\<bar> / 1"
    by (rule frac_le) (use b1 in simp_all)
  also have "\<dots> = real_of_int \<bar>a\<bar>" by simp
  also have "\<dots> < 2 ^ 1023" using assms(2) by (simp only: of_int_less_numeral_power_cancel_iff)
  also have "(2::real) ^ 1023 \<le> 2 ^ 1024 - 2 ^ 970" by simp
  finally show ?thesis by (simp add: float_overflow_def)
qed

lemma get_usage_range: "0 \<le> fst (get_usage self source) \<and> fst (get_usage self source) \<le> 100"
  by (simp add: get_usage_def get_usage_try_def Let_def split: sum.splits prod.splits)

lemma read_100_1000: "read_counters (Some stat_100_1000) = Inr (100, 1000)"
  by code_simp

lemma read_150_1200: "read_counters (Some stat_150_1200) = Inr (150, 1200)"
  by code_simp

lemma get_usage_initialized:
  assumes "initialized self" and "read_counters source = Inr (idle, total')"
  shows "get_usage self source =
    (if total' - last_total self \<le> 0 then 0
     else if float_overflow (real_of_int (idle - last_idle self) / real_of_int (total' - last_total self)) then 0
     else max 0 (min 100 (100 * (1 - real_of_int (idle - last_idle self) / real_of_int (total' - last_total self)))),
     self\<lparr>last_idle := idle, last_total := total'\<rparr>)"
  using assms by (simp add: get_usage_def get_usage_try_def true_div_def Let_def)

lemma get_usage_uninitialized:
  assumes "\<not> initialized self"
  shows "fst (get_usage self source) = 0"
  using assms by (simp add: get_usage_def get_usage_try_def split: sum.splits prod.splits)

lemma get_usage_stores:
  assumes "read_counters source = Inr (idle, total')"
  shows "snd (get_usage self source) = self\<lparr>last_idle := idle, last_total := total', initialized := True\<rparr>"
  using assms by (cases "initialized self") (simp_all add: get_usage_def get_usage_try_def true_div_def Let_def)

lemma get_usage_read_failure:
  assumes "read_counters source = Inl e"
  shows "get_usage self source = (0, self)"
  using assms by (simp add: get_usage_def get_usage_try_def)

lemma second_read_75:
  "fst (get_usage (snd (get_usage self0 (Some stat_100_1000))) (Some stat_150_1200)) = 75"
proof -
  let ?s = "self0\<lparr>last_idle := 100, last_total := 1000, initialized := True\<rparr>"
  have s: "snd (get_usage self0 (Some stat_100_1000)) = ?s"
    using get_usage_stores[OF read_100_1000] by simp
  have "\<not> float_overflow (real_of_int (150 - 100) / real_of_int (1200 - 1000))"
    by (rule no_float_overflow) simp_all
  then show ?thesis
    unfolding s using get_usage_initialized[of ?s, OF _ read_150_1200] by simp
qed

text \<open>
  C4 (as amended). For an initialised tracker and a read that parses to \<open>idle\<close> and
  \<open>total\<close>: when \<open>total_delta > 0\<close> the call returns
  \<open>100 * (1 - idle_delta / total_delta)\<close> clamped to 0 and 100, provided the quotient lies
  above \<open>-(2^1024 - 2^970)\<close>, which it does whenever \<open>|idle_delta| < 2^1023\<close>; at or
  below that bound the division raises OverflowError, which is caught, and the call
  returns 0. When \<open>total_delta \<le> 0\<close> the call returns 0. The value always lies between 0
  and 100. Reads of idle 100, total 1000 and then idle 150, total 1200 make the second
  call return 75, from every tracker state. (The value is the exact real number; the
  rounding of the float operations is not modelled.)
\<close>

theorem get_usage_delta:
  assumes "initialized self" and "read_counters source = Inr (idle, total')"
  shows "(0 < total' - last_total self \<and>
          - (2 ^ 1024 - 2 ^ 970) < real_of_int (idle - last_idle self) / real_of_int (total' - last_total self) \<longrightarrow>
            fst (get_usage self source) =
              max 0 (min 100 (100 * (1 - real_of_int (idle - last_idle self) / real_of_int (total' - last_total self))))) \<and>
         (0 < total' - last_total self \<and> \<bar>idle - last_idle self\<bar> < 2 ^ 1023 \<longrightarrow>
            fst (get_usage self source) =
              max 0 (min 100 (100 * (1 - real_of_int (idle - last_idle self) / real_of_int (total' - last_total self))))) \<and>
         (0 < total' - last_total self \<and>
          real_of_int (idle - last_idle self) / real_of_int (total' - last_total self) \<le> - (2 ^ 1024 - 2 ^ 970) \<longrightarrow>
            fst (get_usage self source) = 0) \<and>
         (total' - last_total self \<le> 0 \<longrightarrow> fst (get_usage self source) = 0) \<and>
         0 \<le> fst (get_usage self source) \<and> fst (get_usage self source) \<le> 100 \<and>
         fst (get_usage (snd (get_usage self0 (Some stat_100_1000))) (Some stat_150_1200)) = 75"
proof -
  define q where "q = real_of_int (idle - last_idle self) / real_of_int (total' - last_total self)"
  have u: "fst (get_usage self source) =
    (if total' - last_total self \<le> 0 then 0
     else if float_overflow q then 0
     else max 0 (min 100 (100 * (1 - q))))"
    using get_usage_initialized[OF assms] by (simp add: q_def)
  have big: "(1::real) < 2 ^ 1024 - 2 ^ 970" by simp
  have 1: "0 < total' - last_total self \<and> - (2 ^ 1024 - 2 ^ 970) < q \<longrightarrow>
            fst (get_usage self source) = max 0 (min 100 (100 * (1 - q)))"
  proof (intro impI, elim conjE)
    assume td: "0 < total' - last_total self" and lo: "- (2 ^ 1024 - 2 ^ 970) < q"
    show "fst (get_usage self source) = max 0 (min 100 (100 * (1 - q)))"
    proof (cases "float_overflow q")
      case True
      then have "2 ^ 1024 - 2 ^ 970 \<le> q" using lo by (simp add: float_overflow_def abs_if split: if_splits)
      then have "100 * (1 - q) \<le> 0" using big by simp
      then have "max 0 (min 100 (100 * (1 - q))) = 0" by simp
      then show ?thesis using u td True by simp
    next
      case False
      then show ?thesis using u td by simp
    qed
  qed
  have 2: "0 < total' - last_total self \<and> \<bar>idle - last_idle self\<bar> < 2 ^ 1023 \<longrightarrow>
            fst (get_usage self source) = max 0 (min 100 (100 * (1 - q)))"
    using u no_float_overflow[of "total' - last_total self" "idle - last_idle self"]
    by (auto simp: q_def)
  have 3: "0 < total' - last_total self \<and> q \<le> - (2 ^ 1024 - 2 ^ 970) \<longrightarrow>
            fst (get_usage self source) = 0"
  proof (intro impI, elim conjE)
    assume td: "0 < total' - last_total self" and lo: "q \<le> - (2 ^ 1024 - 2 ^ 970)"
    have "float_overflow q" using lo big by (simp add: float_overflow_def)
    then show "fst (get_usage self source) = 0" using u td by simp
  qed
  have 4: "total' - last_total self \<le> 0 \<longrightarrow> fst (get_usage self source) = 0"
    using u by simp
  show ?thesis
    using 1 2 3 4 get_usage_range[of self source] second_read_75[of self0]
    unfolding q_def by blast
qed

theorem get_usage_delta_witness:
  "initialized \<lparr>last_idle = 100, last_total = 1000, initialized = True\<rparr> \<and>
   read_counters (Some stat_150_1200) = Inr (150, 1200) \<and>
   (0::int) < 1200 - last_total \<lparr>last_idle = 100, last_total = 1000, initialized = True\<rparr> \<and>
   \<bar>150 - last_idle \<lparr>last_idle = 100, last_total = 1000, initialized = True\<rparr>\<bar> < 2 ^ 1023 \<and>
   fst (get_usage \<lparr>last_idle = 100, last_total = 1000, initialized = True\<rparr> (Some stat_150_1200)) = 75 \<and>
   initialized \<lparr>last_idle = 150, last_total = 1200, initialized = True\<rparr> \<and>
   read_counters (Some stat_100_1000) = Inr (100, 1000) \<and>
   1000 - last_total \<lparr>last_idle = 150, last_total = 1200, initialized = True\<rparr> \<le> 0 \<and>
   fst (get_usage \<lparr>last_idle = 150, last_total = 1200, initialized = True\<rparr> (Some stat_100_1000)) = 0"
proof -
  let ?a = "\<lparr>last_idle = 100, last_total = 1000, initialized = True\<rparr>"
  let ?b = "\<lparr>last_idle = 150, last_total = 1200, initialized = True\<rparr>"
  have ia: "initialized ?a" and ib: "initialized ?b" by simp_all
  have da: "(0::int) < 1200 - last_total ?a \<and> \<bar>150 - last_idle ?a\<bar> < 2 ^ 1023" by simp
  have db: "1000 - last_total ?b \<le> 0" by simp
  have va: "fst (get_usage ?a (Some stat_150_1200)) = 75"
    using get_usage_delta[OF ia read_150_1200] da by simp
  have vb: "fst (get_usage ?b (Some stat_100_1000)) = 0"
    using get_usage_delta[OF ib read_100_1000] db by simp
  show ?thesis
    using ia ib da db va vb read_150_1200 read_100_1000 by simp
qed

text \<open>
  C4 as stated fails where the quotient overflows downwards: the tracker holds idle
  \<open>2^1024\<close> and total 0, the read gives idle 0 and total 1, so \<open>total_delta = 1 > 0\<close>
  and the clamped formula is 100, but the call returns 0.
\<close>

theorem get_usage_overflow_counterexample:
  "initialized \<lparr>last_idle = 2 ^ 1024, last_total = 0, initialized = True\<rparr> \<and>
   read_counters (Some ''cpu  1 0 0 0 0 0 0 0 0 0'') = Inr (0, 1) \<and>
   (0::int) < 1 - last_total \<lparr>last_idle = 2 ^ 1024, last_total = 0, initialized = True\<rparr> \<and>
   fst (get_usage \<lparr>last_idle = 2 ^ 1024, last_total = 0, initialized = True\<rparr>
          (Some ''cpu  1 0 0 0 0 0 0 0 0 0'')) = 0 \<and>
   max 0 (min 100 (100 * (1 -
       real_of_int (0 - last_idle \<lparr>last_idle = 2 ^ 1024, last_total = 0, initialized = True\<rparr>) /
       real_of_int (1 - last_total \<lparr>last_idle = 2 ^ 1024, last_total = 0, initialized = True\<rparr>))))
     = (100::real)"
proof -
  have r: "read_counters (Some ''cpu  1 0 0 0 0 0 0 0 0 0'') = Inr (0, 1)"
    by code_simp
  have o: "float_overflow (real_of_int (0 - 2 ^ 1024) / real_of_int (1 - 0))"
    by (simp add: float_overflow_def)
  have v: "fst (get_usage \<lparr>last_idle = 2 ^ 1024, last_total = 0, initialized = True\<rparr>
             (Some ''cpu  1 0 0 0 0 0 0 0 0 0'')) = 0"
    using get_usage_initialized[of "\<lparr>last_idle = 2 ^ 1024, last_total = 0, initialized = True\<rparr>",
            OF _ r] o
    by simp
  show ?thesis
    using v r by simp
qed

text \<open>
  C5 as stated fails: the constructor itself reads the counters, so when it reads idle
  100, total 1000 and the first call reads idle 150, total 1200, the first call returns 75.
\<close>

theorem first_call_counterexample:
  "fst (get_usage (CpuUsageTracker_init (Some stat_100_1000)) (Some stat_150_1200)) = 75 \<and>
   fst (get_usage (CpuUsageTracker_init (Some stat_100_1000)) (Some stat_150_1200)) \<noteq> 0"
proof -
  have "CpuUsageTracker_init (Some stat_100_1000) =
        snd (get_usage \<lparr>last_idle = 0, last_total = 0, initialized = False\<rparr> (Some stat_100_1000))"
    using get_usage_stores[OF read_100_1000]
    by (simp add: CpuUsageTracker_init_def init_values_def read_100_1000)
  then show ?thesis using second_read_75 by simp
qed

text \<open>
  C5 (as amended). When the constructor's own read of the counters source fails, the
  tracker stays uninitialised and the first call of \<open>get_usage\<close> returns 0 for every
  content of the counters source. When the constructor's read succeeds, the first call
  is a call on an initialised tracker that holds the constructor's counters.
\<close>

theorem first_call_after_construction:
  "(read_counters source0 = Inl e \<longrightarrow>
      initialized (CpuUsageTracker_init source0) = False \<and>
      fst (get_usage (CpuUsageTracker_init source0) source) = 0) \<and>
   (read_counters source0 = Inr (idle0, total0) \<longrightarrow>
      get_usage (CpuUsageTracker_init source0) source =
      get_usage \<lparr>last_idle = idle0, last_total = total0, initialized = True\<rparr> source)"
proof (intro conjI impI)
  assume f: "read_counters source0 = Inl e"
  then show "initialized (CpuUsageTracker_init source0) = False"
    by (simp add: CpuUsageTracker_init_def init_values_def)
  then show "fst (get_usage (CpuUsageTracker_init source0) source) = 0"
    by (simp add: get_usage_uninitialized)
next
  assume "read_counters source0 = Inr (idle0, total0)"
  then show "get_usage (CpuUsageTracker_init source0) source =
      get_usage \<lparr>last_idle = idle0, last_total = total0, initialized = True\<rparr> source"
    by (simp add: CpuUsageTracker_init_def init_values_def)
qed

theorem first_call_after_construction_witness:
  "read_counters None = Inl OSError \<and>
   fst (get_usage (CpuUsageTracker_init None) (Some stat_150_1200)) = 0 \<and>
   read_counters (Some stat_100_1000) = Inr (100, 1000) \<and>
   get_usage (CpuUsageTracker_init (Some stat_100_1000)) (Some stat_150_1200) =
   get_usage \<lparr>last_idle = 100, last_total = 1000, initialized = True\<rparr> (Some stat_150_1200)"
proof -
  have n: "read_counters None = Inl OSError" by (simp add: read_counters_def)
  show ?thesis
    using first_call_after_construction[of None OSError "Some stat_150_1200"]
      first_call_after_construction[of "Some stat_100_1000" _ "Some stat_150_1200" 100 1000]
      n read_100_1000
    by simp
qed

text \<open>
  C10. For every tracker state and every content of the counters source, \<open>get_usage\<close>
  returns a value between 0 and 100: the value of the body of its \<open>try\<close>, or 0 when the
  body raises. A read that fails (source missing, empty, non-numeric, fewer than six
  fields) gives 0 and leaves the tracker as it was.
\<close>

theorem get_usage_total_and_bounded:
  "0 \<le> fst (get_usage self source) \<and> fst (get_usage self source) \<le> 100 \<and>
   fst (get_usage self source) =
     (case fst (get_usage_try self source) of Inl e \<Rightarrow> 0 | Inr v \<Rightarrow> v) \<and>
   (\<forall>e. read_counters source = Inl e \<longrightarrow> get_usage self source = (0, self))"
  using get_usage_range[of self source] get_usage_read_failure[of source _ self]
  by (simp add: get_usage_def split: sum.splits prod.splits)

theorem get_usage_total_and_bounded_witness:
  "read_counters None = Inl OSError \<and>
   get_usage \<lparr>last_idle = 100, last_total = 1000, initialized = True\<rparr> None =
     (0, \<lparr>last_idle = 100, last_total = 1000, initialized = True\<rparr>) \<and>
   read_counters (Some []) = Inl IndexError \<and>
   get_usage \<lparr>last_idle = 100, last_total = 1000, initialized = True\<rparr> (Some []) =
     (0, \<lparr>last_idle = 100, last_total = 1000, initialized = True\<rparr>) \<and>
   read_counters (Some ''cpu  a b c d e f g h i j'') = Inl ValueError \<and>
   get_usage \<lparr>last_idle = 100, last_total = 1000, initialized = True\<rparr> (Some ''cpu  a b c d e f g h i j'') =
     (0, \<lparr>last_idle = 100, last_total = 1000, initialized = True\<rparr>) \<and>
   read_counters (Some ''cpu  1050 0 0 150'') = Inl IndexError \<and>
   get_usage \<lparr>last_idle = 100, last_total = 1000, initialized = True\<rparr> (Some ''cpu  1050 0 0 150'') =
     (0, \<lparr>last_idle = 100, last_total = 1000, initialized = True\<rparr>)"
proof -
  let ?t = "\<lparr>last_idle = 100, last_total = 1000, initialized = True\<rparr>"
  have a: "read_counters None = Inl OSError" by (simp add: read_counters_def)
  have b: "read_counters (Some []) = Inl IndexError" by code_simp
  have c: "read_counters (Some ''cpu  a b c d e f g h i j'') = Inl ValueError" by code_simp
  have d: "read_counters (Some ''cpu  1050 0 0 150'') = Inl IndexError" by code_simp
  show ?thesis
    using get_usage_total_and_bounded[of ?t None] get_usage_total_and_bounded[of ?t "Some []"]
      get_usage_total_and_bounded[of ?t "Some ''cpu  a b c d e f g h i j''"]
      get_usage_total_and_bounded[of ?t "Some ''cpu  1050 0 0 150''"] a b c d
    by simp
qed

section \<open>Properties of transmission and disconnect handling\<close>

lemma snd_build [simp]:
  "snd (build_gamdias_packet now self) = self" "snd (build_hwcx_packet now self) = self"
  by (simp_all add: build_gamdias_packet_def build_hwcx_packet_def)

lemma fst_build_initialized [simp]:
  "fst (build_gamdias_packet now (self\<lparr>initialized_devices := I\<rparr>)) = fst (build_gamdias_packet now self)"
  "fst (build_hwcx_packet now (self\<lparr>initialized_devices := I\<rparr>)) = fst (build_hwcx_packet now self)"
  by (simp_all add: build_gamdias_packet_def build_hwcx_packet_def)

lemma data_packet_initialized [simp]:
  "data_packet sys (self\<lparr>initialized_devices := I\<rparr>) p info = data_packet sys self p info"
  by (simp add: data_packet_def)

lemma disconnected_initialized [simp]:
  "disconnected sys (self\<lparr>initialized_devices := I\<rparr>) p = disconnected sys self p"
  by (simp add: disconnected_def split: option.splits)

text \<open>One iteration only adds the path to the initialised set, and only for a known device.\<close>

lemma send_one_step:
  "\<exists>success' calls'.
     send_one sys (base\<lparr>initialized_devices := I\<rparr>, success, to_remove, calls) (p, fd) =
       (base\<lparr>initialized_devices := (if device_info base p = None then I else insert p I)\<rparr>,
        success',
        to_remove @ (if disconnected sys base p then [p] else []),
        calls') \<and>
     (\<forall>c \<in> set calls'. c \<in> set calls \<or> (\<exists>b. c = InitWrite fd b) \<or>
        (\<exists>info packet. c = DataWrite p fd packet \<and> device_info base p = Some info \<and>
           data_packet sys base p info = Inr packet))"
proof (cases "device_info base p")
  case None
  then show ?thesis by (simp add: disconnected_def)
next
  case (Some info)
  have ins: "p \<in> I \<Longrightarrow> insert p I = I" by auto
  show ?thesis
  proof (cases "data_packet sys base p info")
    case (Inl e)
    then show ?thesis using Some
      by (auto simp: disconnected_def data_packet_def Let_def split_beta ins send_gamdias_init_def)
  next
    case (Inr packet)
    then show ?thesis using Some
      by (cases "os_write sys p")
         (auto simp: disconnected_def data_packet_def Let_def split_beta ins send_gamdias_init_def)
  qed
qed

lemma send_loop:
  "\<exists>success' calls'.
     foldl (send_one sys) (base\<lparr>initialized_devices := I\<rparr>, success, to_remove, calls) ds =
       (base\<lparr>initialized_devices := I \<union> {p \<in> fst ` set ds. device_info base p \<noteq> None}\<rparr>,
        success',
        to_remove @ filter (disconnected sys base) (map fst ds),
        calls') \<and>
     (\<forall>c \<in> set calls'. c \<in> set calls \<or> (\<exists>fd b. c = InitWrite fd b) \<or>
        (\<exists>p fd info packet. c = DataWrite p fd packet \<and> (p, fd) \<in> set ds \<and>
           device_info base p = Some info \<and> data_packet sys base p info = Inr packet))"
proof (induction ds arbitrary: I success to_remove calls)
  case Nil
  then show ?case by simp
next
  case (Cons d ds)
  obtain p fd where d: "d = (p, fd)" by (cases d)
  let ?I1 = "if device_info base p = None then I else insert p I"
  let ?r1 = "to_remove @ (if disconnected sys base p then [p] else [])"
  obtain s1 c1 where
    step: "send_one sys (base\<lparr>initialized_devices := I\<rparr>, success, to_remove, calls) (p, fd) =
             (base\<lparr>initialized_devices := ?I1\<rparr>, s1, ?r1, c1)"
    and c1: "\<forall>c \<in> set c1. c \<in> set calls \<or> (\<exists>b. c = InitWrite fd b) \<or>
        (\<exists>info packet. c = DataWrite p fd packet \<and> device_info base p = Some info \<and>
           data_packet sys base p info = Inr packet)"
    using send_one_step[where sys=sys and base=base and I=I and success=success
        and to_remove=to_remove and calls=calls and p=p and fd=fd] by blast
  obtain s2 c2 where
    rest: "foldl (send_one sys) (base\<lparr>initialized_devices := ?I1\<rparr>, s1, ?r1, c1) ds =
       (base\<lparr>initialized_devices := ?I1 \<union> {p \<in> fst ` set ds. device_info base p \<noteq> None}\<rparr>,
        s2, ?r1 @ filter (disconnected sys base) (map fst ds), c2)"
    and c2: "\<forall>c \<in> set c2. c \<in> set c1 \<or> (\<exists>fd b. c = InitWrite fd b) \<or>
        (\<exists>p fd info packet. c = DataWrite p fd packet \<and> (p, fd) \<in> set ds \<and>
           device_info base p = Some info \<and> data_packet sys base p info = Inr packet)"
    using Cons.IH[of ?I1 s1 ?r1 c1] by blast
  have I: "?I1 \<union> {p \<in> fst ` set ds. device_info base p \<noteq> None} =
           I \<union> {q \<in> fst ` set (d # ds). device_info base q \<noteq> None}"
    using d by auto
  have r: "?r1 @ filter (disconnected sys base) (map fst ds) =
           to_remove @ filter (disconnected sys base) (map fst (d # ds))"
    using d by simp
  have c: "\<forall>c \<in> set c2. c \<in> set calls \<or> (\<exists>fd b. c = InitWrite fd b) \<or>
        (\<exists>p fd info packet. c = DataWrite p fd packet \<and> (p, fd) \<in> set (d # ds) \<and>
           device_info base p = Some info \<and> data_packet sys base p info = Inr packet)"
  proof
    fix x assume "x \<in> set c2"
    then consider "x \<in> set c1" | "\<exists>fd b. x = InitWrite fd b"
      | "\<exists>p fd info packet. x = DataWrite p fd packet \<and> (p, fd) \<in> set ds \<and>
           device_info base p = Some info \<and> data_packet sys base p info = Inr packet"
      using c2 by blast
    then show "x \<in> set calls \<or> (\<exists>fd b. x = InitWrite fd b) \<or>
        (\<exists>p fd info packet. x = DataWrite p fd packet \<and> (p, fd) \<in> set (d # ds) \<and>
           device_info base p = Some info \<and> data_packet sys base p info = Inr packet)"
    proof cases
      case 1
      then show ?thesis using c1 d by fastforce
    next
      case 2
      then show ?thesis by blast
    next
      case 3
      then show ?thesis by fastforce
    qed
  qed
  have "foldl (send_one sys) (base\<lparr>initialized_devices := I\<rparr>, success, to_remove, calls) (d # ds) =
       (base\<lparr>initialized_devices := I \<union> {q \<in> fst ` set (d # ds). device_info base q \<noteq> None}\<rparr>,
        s2, to_remove @ filter (disconnected sys base) (map fst (d # ds)), c2)"
    using step rest d unfolding I r by simp
  then show ?case using c by blast
qed


lemma map_of_filter_key:
  "map_of (filter (\<lambda>kv. fst kv \<noteq> p) kvs) q = (if q = p then None else map_of kvs q)"
  by (induction kvs) auto

lemma dict_del_present:
  assumes "p \<in> fst ` set kvs"
  shows "dict_del kvs p = Inr (filter (\<lambda>kv. fst kv \<noteq> p) kvs)"
proof -
  obtain v where "map_of kvs p = Some v"
    using assms by (metis domD dom_map_of_conv_image_fst)
  then show ?thesis by (simp add: dict_del_def)
qed

lemma remove_devices_result:
  assumes "distinct ps" and "set ps \<subseteq> fst ` set (devices self)"
  shows "remove_devices ps (self, calls) =
     Inr (self\<lparr>devices := filter (\<lambda>kv. fst kv \<notin> set ps) (devices self),
               device_info := (\<lambda>q. if q \<in> set ps then None else device_info self q),
               initialized_devices := initialized_devices self - set ps\<rparr>,
          calls @ map (\<lambda>q. Close (the (map_of (devices self) q))) ps)"
  using assms
proof (induction ps arbitrary: self calls)
  case Nil
  then show ?case by simp
next
  case (Cons p ps)
  let ?d1 = "filter (\<lambda>kv. fst kv \<noteq> p) (devices self)"
  let ?s1 = "self\<lparr>devices := ?d1, device_info := (device_info self)(p := None),
                  initialized_devices := initialized_devices self - {p}\<rparr>"
  have pin: "p \<in> fst ` set (devices self)" and pnot: "p \<notin> set ps" and dps: "distinct ps"
    using Cons.prems by auto
  obtain fd where fd: "map_of (devices self) p = Some fd"
    using pin by (metis domD dom_map_of_conv_image_fst)
  have sub: "set ps \<subseteq> fst ` set (devices ?s1)"
    using Cons.prems pnot by force
  have step: "remove_devices (p # ps) (self, calls) = remove_devices ps (?s1, calls @ [Close fd])"
    using fd dict_del_present[OF pin] by simp
  have closes: "map (\<lambda>q. Close (the (map_of (devices ?s1) q))) ps =
                map (\<lambda>q. Close (the (map_of (devices self) q))) ps"
    using pnot by (intro map_cong) (auto simp: map_of_filter_key)
  have filt: "filter (\<lambda>kv. fst kv \<notin> set ps) ?d1 =
              filter (\<lambda>kv. fst kv \<notin> set (p # ps)) (devices self)"
    by (induction "devices self") auto
  have rec: "?s1\<lparr>devices := filter (\<lambda>kv. fst kv \<notin> set ps) (devices ?s1),
               device_info := (\<lambda>q. if q \<in> set ps then None else device_info ?s1 q),
               initialized_devices := initialized_devices ?s1 - set ps\<rparr> =
             self\<lparr>devices := filter (\<lambda>kv. fst kv \<notin> set (p # ps)) (devices self),
               device_info := (\<lambda>q. if q \<in> set (p # ps) then None else device_info self q),
               initialized_devices := initialized_devices self - set (p # ps)\<rparr>"
    by (rule HidDevice.equality) (auto simp: filt)
  have ih: "remove_devices ps (?s1, calls @ [Close fd]) =
     Inr (?s1\<lparr>devices := filter (\<lambda>kv. fst kv \<notin> set ps) (devices ?s1),
               device_info := (\<lambda>q. if q \<in> set ps then None else device_info ?s1 q),
               initialized_devices := initialized_devices ?s1 - set ps\<rparr>,
          (calls @ [Close fd]) @ map (\<lambda>q. Close (the (map_of (devices ?s1) q))) ps)"
    by (rule Cons.IH[OF dps sub])
  show ?case
    unfolding step ih rec closes using fd by simp
qed


lemma send_data_result:
  assumes "distinct (map fst (devices self))"
  shows "\<exists>success calls.
     send_data sys self =
       Inr (success,
            self\<lparr>devices := filter (\<lambda>kv. \<not> disconnected sys self (fst kv)) (devices self),
                 device_info := (\<lambda>q. if q \<in> fst ` set (devices self) \<and> disconnected sys self q
                                      then None else device_info self q),
                 initialized_devices :=
                   (initialized_devices self \<union> {q \<in> fst ` set (devices self). device_info self q \<noteq> None})
                   - {q \<in> fst ` set (devices self). disconnected sys self q}\<rparr>,
            calls) \<and>
     (\<forall>q \<in> fst ` set (devices self). disconnected sys self q \<longrightarrow>
          Close (the (map_of (devices self) q)) \<in> set calls) \<and>
     (\<forall>c \<in> set calls. (\<exists>fd. c = Close fd) \<or> (\<exists>fd b. c = InitWrite fd b) \<or>
        (\<exists>p fd info packet. c = DataWrite p fd packet \<and> (p, fd) \<in> set (devices self) \<and>
           device_info self p = Some info \<and> data_packet sys self p info = Inr packet))"
proof (cases "devices self = []")
  case True
  have r: "self\<lparr>devices := filter (\<lambda>kv. \<not> disconnected sys self (fst kv)) (devices self),
                 device_info := (\<lambda>q. if q \<in> fst ` set (devices self) \<and> disconnected sys self q
                                      then None else device_info self q),
                 initialized_devices :=
                   (initialized_devices self \<union> {q \<in> fst ` set (devices self). device_info self q \<noteq> None})
                   - {q \<in> fst ` set (devices self). disconnected sys self q}\<rparr> = self"
    using True by (intro HidDevice.equality) auto
  show ?thesis
    unfolding r using True by (auto simp: send_data_def)
next
  case False
  let ?ps = "filter (disconnected sys self) (map fst (devices self))"
  let ?I = "initialized_devices self \<union> {q \<in> fst ` set (devices self). device_info self q \<noteq> None}"
  let ?s1 = "self\<lparr>initialized_devices := ?I\<rparr>"
  obtain success c1 where
    loop: "foldl (send_one sys) (self, False, [], []) (devices self) = (?s1, success, ?ps, c1)"
    and c1: "\<forall>c \<in> set c1. (\<exists>fd b. c = InitWrite fd b) \<or>
        (\<exists>p fd info packet. c = DataWrite p fd packet \<and> (p, fd) \<in> set (devices self) \<and>
           device_info self p = Some info \<and> data_packet sys self p info = Inr packet)"
    using send_loop[where base=self and I="initialized_devices self" and ds="devices self"
        and success=False and to_remove="[]" and calls="[]" and sys=sys]
    by auto
  have d: "distinct ?ps" using assms by simp
  have sub: "set ?ps \<subseteq> fst ` set (devices ?s1)" by auto
  let ?c2 = "c1 @ map (\<lambda>q. Close (the (map_of (devices ?s1) q))) ?ps"
  have rem: "remove_devices ?ps (?s1, c1) =
     Inr (?s1\<lparr>devices := filter (\<lambda>kv. fst kv \<notin> set ?ps) (devices ?s1),
               device_info := (\<lambda>q. if q \<in> set ?ps then None else device_info ?s1 q),
               initialized_devices := initialized_devices ?s1 - set ?ps\<rparr>, ?c2)"
    by (rule remove_devices_result[OF d sub])
  have rec: "?s1\<lparr>devices := filter (\<lambda>kv. fst kv \<notin> set ?ps) (devices ?s1),
               device_info := (\<lambda>q. if q \<in> set ?ps then None else device_info ?s1 q),
               initialized_devices := initialized_devices ?s1 - set ?ps\<rparr> =
        self\<lparr>devices := filter (\<lambda>kv. \<not> disconnected sys self (fst kv)) (devices self),
                 device_info := (\<lambda>q. if q \<in> fst ` set (devices self) \<and> disconnected sys self q
                                      then None else device_info self q),
                 initialized_devices := ?I - {q \<in> fst ` set (devices self). disconnected sys self q}\<rparr>"
    by (rule HidDevice.equality) (auto intro: filter_cong)
  have sd: "send_data sys self = Inr (success, ?s1\<lparr>devices := filter (\<lambda>kv. fst kv \<notin> set ?ps) (devices ?s1),
               device_info := (\<lambda>q. if q \<in> set ?ps then None else device_info ?s1 q),
               initialized_devices := initialized_devices ?s1 - set ?ps\<rparr>, ?c2)"
    using False loop rem by (simp add: send_data_def)
  have closes: "\<forall>q \<in> fst ` set (devices self). disconnected sys self q \<longrightarrow>
          Close (the (map_of (devices self) q)) \<in> set ?c2"
    by auto
  have calls: "\<forall>c \<in> set ?c2. (\<exists>fd. c = Close fd) \<or> (\<exists>fd b. c = InitWrite fd b) \<or>
        (\<exists>p fd info packet. c = DataWrite p fd packet \<and> (p, fd) \<in> set (devices self) \<and>
           device_info self p = Some info \<and> data_packet sys self p info = Inr packet)"
    using c1 by auto
  show ?thesis
    unfolding sd rec using closes calls by blast
qed

text \<open>
  C6. Let the device at \<open>p\<close> be open with descriptor \<open>fd\<close> and known, and let its packet
  be built, so that \<open>send_data\<close> writes to it. \<open>send_data\<close> returns, and: if the write
  fails with errno 19, the path is no longer a key of \<open>_devices\<close> nor of \<open>_device_info\<close>,
  it is not in the initialised set, \<open>os.close(fd)\<close> was called, and
  \<open>get_online_device_count\<close> is smaller than before; with every other outcome of the
  write the handle stays in \<open>_devices\<close> with its descriptor and its info, and it is in
  the initialised set.
\<close>

theorem send_data_disconnect:
  assumes "distinct (map fst (devices self))"
    and "(p, fd) \<in> set (devices self)"
    and "device_info self p = Some info"
    and "data_packet sys self p info = Inr packet"
  shows "\<exists>success self' calls.
      send_data sys self = Inr (success, self', calls) \<and>
      (os_write sys p = WriteOSError 19 \<longrightarrow>
         p \<notin> fst ` set (devices self') \<and> device_info self' p = None \<and>
         p \<notin> initialized_devices self' \<and> Close fd \<in> set calls \<and>
         get_online_device_count self' < get_online_device_count self) \<and>
      (os_write sys p \<noteq> WriteOSError 19 \<longrightarrow>
         (p, fd) \<in> set (devices self') \<and> device_info self' p = Some info \<and>
         p \<in> initialized_devices self')"
proof -
  let ?s = "self\<lparr>devices := filter (\<lambda>kv. \<not> disconnected sys self (fst kv)) (devices self),
                 device_info := (\<lambda>q. if q \<in> fst ` set (devices self) \<and> disconnected sys self q
                                      then None else device_info self q),
                 initialized_devices :=
                   (initialized_devices self \<union> {q \<in> fst ` set (devices self). device_info self q \<noteq> None})
                   - {q \<in> fst ` set (devices self). disconnected sys self q}\<rparr>"
  obtain success calls where sd: "send_data sys self = Inr (success, ?s, calls)"
    and closes: "\<forall>q \<in> fst ` set (devices self). disconnected sys self q \<longrightarrow>
          Close (the (map_of (devices self) q)) \<in> set calls"
    using send_data_result[OF assms(1), of sys] by blast
  have key: "p \<in> fst ` set (devices self)" using assms(2) by force
  have fd: "map_of (devices self) p = Some fd" using assms(1,2) by simp
  have dis: "disconnected sys self p \<longleftrightarrow> os_write sys p = WriteOSError 19"
    using assms(3,4) by (simp add: disconnected_def)
  have gone: "os_write sys p = WriteOSError 19 \<longrightarrow>
         p \<notin> fst ` set (devices ?s) \<and> device_info ?s p = None \<and>
         p \<notin> initialized_devices ?s \<and> Close fd \<in> set calls \<and>
         get_online_device_count ?s < get_online_device_count self"
  proof
    assume w: "os_write sys p = WriteOSError 19"
    then have d: "disconnected sys self p" using dis by simp
    have "Close fd \<in> set calls" using closes key d fd by force
    moreover have "length (filter (\<lambda>kv. \<not> disconnected sys self (fst kv)) (devices self)) < length (devices self)"
      using assms(2) d by (intro length_filter_less[of "(p, fd)"]) auto
    ultimately show "p \<notin> fst ` set (devices ?s) \<and> device_info ?s p = None \<and>
         p \<notin> initialized_devices ?s \<and> Close fd \<in> set calls \<and>
         get_online_device_count ?s < get_online_device_count self"
      using d key by (auto simp: get_online_device_count_def)
  qed
  have kept: "os_write sys p \<noteq> WriteOSError 19 \<longrightarrow>
         (p, fd) \<in> set (devices ?s) \<and> device_info ?s p = Some info \<and>
         p \<in> initialized_devices ?s"
    using dis key assms(2,3) by auto
  show ?thesis using sd gone kept by blast
qed


theorem send_data_disconnect_witness:
  "distinct (map fst (devices example_device)) \<and>
   (''/dev/hidraw0'', 3) \<in> set (devices example_device) \<and>
   (''/dev/hidraw1'', 4) \<in> set (devices example_device) \<and>
   os_write example_system ''/dev/hidraw0'' = WriteOSError 19 \<and>
   os_write example_system ''/dev/hidraw1'' \<noteq> WriteOSError 19 \<and>
   (\<exists>success self' calls.
      send_data example_system example_device = Inr (success, self', calls) \<and>
      ''/dev/hidraw0'' \<notin> fst ` set (devices self') \<and>
      device_info self' ''/dev/hidraw0'' = None \<and>
      ''/dev/hidraw0'' \<notin> initialized_devices self' \<and>
      Close 3 \<in> set calls \<and>
      get_online_device_count self' < get_online_device_count example_device \<and>
      (''/dev/hidraw1'', 4) \<in> set (devices self') \<and>
      ''/dev/hidraw1'' \<in> initialized_devices self')"
proof -
  let ?i0 = "\<lparr>path = ''/dev/hidraw0'', vendor_id = 0x1B80, product_id = 0xB538,
               name = ''GAMDIAS ATLAS'', is_gamdias = True\<rparr>"
  let ?i1 = "\<lparr>path = ''/dev/hidraw1'', vendor_id = 0x0145, product_id = 0x1005,
               name = ''HWCX Controller'', is_gamdias = False\<rparr>"
  have d: "distinct (map fst (devices example_device))"
    by (simp add: example_device_def)
  have m0: "(''/dev/hidraw0'', 3) \<in> set (devices example_device)"
    and m1: "(''/dev/hidraw1'', 4) \<in> set (devices example_device)"
    by (simp_all add: example_device_def)
  have i0: "device_info example_device ''/dev/hidraw0'' = Some ?i0"
    and i1: "device_info example_device ''/dev/hidraw1'' = Some ?i1"
    by (simp_all add: example_device_def)
  have p0: "data_packet example_system example_device ''/dev/hidraw0'' ?i0 =
              Inr ([176, 1] @ replicate 17 0 @ [12, 30, 59] @ replicate 43 0)"
    by (simp add: data_packet_def example_system_def example_device_def example_now_def
          build_gamdias_packet_def gamdias_assignments_def bytearray_def REPORT_SIZE_def
          setitem_def SensorData_default_def eval_nat_numeral)
  have p1: "data_packet example_system example_device ''/dev/hidraw1'' ?i1 =
              Inr ([0, 2, 0, 0, 12, 30, 59, 0, 7, 234, 11, 3, 1] @ replicate 52 0)"
    by (simp add: data_packet_def example_system_def example_device_def example_now_def
          build_hwcx_packet_def hwcx_assignments_def bytearray_def REPORT_SIZE_def
          setitem_def SensorData_default_def eval_nat_numeral)
  have w0: "os_write example_system ''/dev/hidraw0'' = WriteOSError 19"
    and w1: "os_write example_system ''/dev/hidraw1'' \<noteq> WriteOSError 19"
    by (simp_all add: example_system_def)
  show ?thesis
    using send_data_disconnect[OF d m0 i0 p0] send_data_disconnect[OF d m1 i1 p1] d m0 m1 w0 w1
    by (elim exE conjE) auto
qed

section \<open>Properties of the update cycle without GPU backend\<close>

lemma remove_devices_frame:
  "remove_devices ps (s, c) = Inr (s', c') \<Longrightarrow>
     sensor_data s' = sensor_data s \<and> (\<forall>x \<in> set c'. x \<in> set c \<or> (\<exists>fd. x = Close fd))"
proof (induction ps arbitrary: s c)
  case Nil
  then show ?case by simp
next
  case (Cons p ps)
  then show ?case
    by (fastforce simp: Let_def split: sum.splits option.splits)
qed

lemma send_data_frame:
  assumes "send_data sys self = Inr (ok, self', calls)"
  shows "sensor_data self' = sensor_data self \<and>
     (\<forall>c \<in> set calls. (\<exists>fd. c = Close fd) \<or> (\<exists>fd b. c = InitWrite fd b) \<or>
        (\<exists>p fd info packet. c = DataWrite p fd packet \<and> (p, fd) \<in> set (devices self) \<and>
           device_info self p = Some info \<and> data_packet sys self p info = Inr packet))"
proof (cases "devices self = []")
  case True
  then show ?thesis using assms by (simp add: send_data_def)
next
  case False
  let ?I = "initialized_devices self \<union> {q \<in> fst ` set (devices self). device_info self q \<noteq> None}"
  let ?s1 = "self\<lparr>initialized_devices := ?I\<rparr>"
  obtain success ps c1 where
    loop: "foldl (send_one sys) (self, False, [], []) (devices self) = (?s1, success, ps, c1)"
    and c1: "\<forall>c \<in> set c1. (\<exists>fd b. c = InitWrite fd b) \<or>
        (\<exists>p fd info packet. c = DataWrite p fd packet \<and> (p, fd) \<in> set (devices self) \<and>
           device_info self p = Some info \<and> data_packet sys self p info = Inr packet)"
    using send_loop[where base=self and I="initialized_devices self" and ds="devices self"
        and success=False and to_remove="[]" and calls="[]" and sys=sys]
    by auto
  have rem: "remove_devices ps (?s1, c1) = Inr (self', calls)"
    using assms False loop by (simp add: send_data_def split: sum.splits)
  show ?thesis
    using remove_devices_frame[OF rem] c1 by fastforce
qed

lemma zero_gpu_packet:
  assumes "gpu_fields_zero (sensor_data self)" and "data_packet sys self p info = Inr packet"
  shows "gpu_bytes_zero packet"
proof (cases "is_gamdias info")
  case True
  then have b: "fst (build_gamdias_packet (clock sys p) self) = Inr packet"
    using assms(2) by (simp add: data_packet_def)
  have "packet ! 0 = 0xB0 \<and> list_all (\<lambda>i. packet ! i = 0) [3, 9, 10, 11, 12, 16, 17, 18]"
    using gamdias_nth[OF b, of 0] gamdias_nth[OF b, of 3] gamdias_nth[OF b, of 9]
      gamdias_nth[OF b, of 10] gamdias_nth[OF b, of 11] gamdias_nth[OF b, of 12]
      gamdias_nth[OF b, of 16] gamdias_nth[OF b, of 17] gamdias_nth[OF b, of 18] assms(1)
    by (simp add: gamdias_assignments_def gpu_fields_zero_def)
  then show ?thesis by (simp add: gpu_bytes_zero_def)
next
  case False
  then have b: "fst (build_hwcx_packet (clock sys p) self) = Inr packet"
    using assms(2) by (simp add: data_packet_def)
  have "packet ! 0 = 0x00 \<and> list_all (\<lambda>i. packet ! i = 0) [3, 16, 17, 18, 31, 32, 35, 36]"
    using hwcx_nth[OF b, of 0] hwcx_nth[OF b, of 3] hwcx_nth[OF b, of 16]
      hwcx_nth[OF b, of 17] hwcx_nth[OF b, of 18] hwcx_nth[OF b, of 31]
      hwcx_nth[OF b, of 32] hwcx_nth[OF b, of 35] hwcx_nth[OF b, of 36] assms(1)
    by (simp add: hwcx_assignments_def gpu_fields_zero_def)
  then show ?thesis by (simp add: gpu_bytes_zero_def)
qed

lemma get_gpu_data_none:
  "gpu_vendor m = None \<Longrightarrow> get_gpu_data sens m = GpuData_default"
  by (simp add: get_gpu_data_def)

lemma collect_and_send_no_gpu:
  assumes "gpu_vendor (monitor self) = None"
    and "collect_and_send sys sens self = Inr (self', calls)"
  shows "gpu_fields_zero (sensor_data (hid self')) \<and>
         (\<forall>p fd packet. DataWrite p fd packet \<in> set calls \<longrightarrow> gpu_bytes_zero packet)"
proof -
  obtain ct cu cf cr cw where cpu: "cpu_arguments (cpu_reading sens) = Inr (ct, cu, cf, cr, cw)"
    using assms(2) by (auto simp: collect_and_send_def split: sum.splits)
  let ?h = "set_disk_data (set_memory_data (set_gpu_data (set_cpu_data (hid self) ct cu cf cr cw)
              0 0 0 0 0) (memory_usage_now sens) 0) (disk_usage_now sens) 0"
  have z: "gpu_fields_zero (sensor_data ?h)"
    by (simp add: gpu_fields_zero_def set_disk_data_def set_memory_data_def set_gpu_data_def)
  obtain sent hid5 where sd: "send_data sys ?h = Inr (sent, hid5, calls)" and h: "hid self' = hid5"
    using assms cpu
    by (auto simp: collect_and_send_def get_gpu_data_none GpuData_default_def Let_def
          split: sum.splits)
  show ?thesis
    using send_data_frame[OF sd] z zero_gpu_packet[of ?h sys] h by fastforce
qed


lemma detect_in_cards_no_match:
  assumes "\<forall>c \<in> set cards. vendor_file c \<noteq> Unreadable \<and>
             (\<forall>text. vendor_file c = Content text \<longrightarrow>
                strip text \<noteq> ''0x1002'' \<and> strip text \<noteq> ''0x8086'')"
  shows "detect_in_cards m cards = Inr m"
  using assms
  by (induction cards) (auto simp: Let_def split: sysfs_file.splits)

lemma collect_and_send_returns:
  assumes "gpu_vendor (monitor self) = None"
    and "distinct (map fst (devices (hid self)))"
    and "cpu_arguments (cpu_reading sens) = Inr x"
  shows "\<exists>self' calls. collect_and_send sys sens self = Inr (self', calls)"
proof -
  obtain ct cu cf cr cw where x: "x = (ct, cu, cf, cr, cw)" by (cases x)
  let ?h = "set_disk_data (set_memory_data (set_gpu_data (set_cpu_data (hid self) ct cu cf cr cw)
              0 0 0 0 0) (memory_usage_now sens) 0) (disk_usage_now sens) 0"
  have "distinct (map fst (devices ?h))"
    using assms(2)
    by (simp add: set_disk_data_def set_memory_data_def set_gpu_data_def set_cpu_data_def)
  then obtain ok s c where "send_data sys ?h = Inr (ok, s, c)"
    using send_data_result[where self="?h" and sys=sys] by blast
  then show ?thesis
    using assms(1,3) x
    by (simp add: collect_and_send_def get_gpu_data_none GpuData_default_def Let_def)
qed

text \<open>
  C7. When no GPU backend was detected (\<open>_gpu_vendor\<close> is \<open>None\<close>), \<open>get_gpu_data\<close>
  returns the default reading: not valid, every numeric field 0. Every update cycle that
  returns and does not stop for want of devices leaves the GPU fields of the snapshot at
  0, and every data packet it writes has all GPU bytes 0. Detection leaves \<open>_gpu_vendor\<close>
  at \<open>None\<close> when there is no NVIDIA tool and no DRM entry with the AMD or Intel vendor
  id. With devices connected and a CPU reading of finite numbers the cycle does return.
\<close>

theorem no_gpu_backend:
  assumes "gpu_vendor (monitor self) = None"
  shows "get_gpu_data sens (monitor self) = GpuData_default \<and>
         \<not> GpuData.is_valid (get_gpu_data sens (monitor self)) \<and>
         GpuData.temperature (get_gpu_data sens (monitor self)) = Finite 0 \<and>
         GpuData.usage (get_gpu_data sens (monitor self)) = Finite 0 \<and>
         GpuData.frequency (get_gpu_data sens (monitor self)) = Finite 0 \<and>
         GpuData.memory_usage (get_gpu_data sens (monitor self)) = Finite 0 \<and>
         GpuData.fan_rpm (get_gpu_data sens (monitor self)) = 0 \<and>
         GpuData.power' (get_gpu_data sens (monitor self)) = Finite 0 \<and>
         (\<forall>self' calls. update_cycle sys sens self = Inr (self', calls) \<longrightarrow>
            (get_online_device_count (hid self) \<noteq> 0 \<or> fst (open_devices sys (hid self)) \<noteq> 0 \<longrightarrow>
               gpu_fields_zero (sensor_data (hid self'))) \<and>
            (\<forall>p fd packet. DataWrite p fd packet \<in> set calls \<longrightarrow> gpu_bytes_zero packet)) \<and>
         (\<not> nvidia_available m0 \<and>
          (\<forall>cards. drm = Some cards \<longrightarrow>
             (\<forall>c \<in> set cards. vendor_file c \<noteq> Unreadable \<and>
                (\<forall>text. vendor_file c = Content text \<longrightarrow>
                   strip text \<noteq> ''0x1002'' \<and> strip text \<noteq> ''0x8086''))) \<longrightarrow>
          detect_gpu m0 drm = Inr m0) \<and>
         (distinct (map fst (devices (hid self))) \<and> get_online_device_count (hid self) \<noteq> 0 \<and>
          (\<exists>x. cpu_arguments (cpu_reading sens) = Inr x) \<longrightarrow>
            (\<exists>self' calls. update_cycle sys sens self = Inr (self', calls)))"
proof -
  have g: "get_gpu_data sens (monitor self) = GpuData_default"
    using assms by (rule get_gpu_data_none)
  have u: "\<forall>self' calls. update_cycle sys sens self = Inr (self', calls) \<longrightarrow>
            (get_online_device_count (hid self) \<noteq> 0 \<or> fst (open_devices sys (hid self)) \<noteq> 0 \<longrightarrow>
               gpu_fields_zero (sensor_data (hid self'))) \<and>
            (\<forall>p fd packet. DataWrite p fd packet \<in> set calls \<longrightarrow> gpu_bytes_zero packet)"
  proof (intro allI impI)
    fix self' calls
    assume r: "update_cycle sys sens self = Inr (self', calls)"
    show "(get_online_device_count (hid self) \<noteq> 0 \<or> fst (open_devices sys (hid self)) \<noteq> 0 \<longrightarrow>
               gpu_fields_zero (sensor_data (hid self'))) \<and>
            (\<forall>p fd packet. DataWrite p fd packet \<in> set calls \<longrightarrow> gpu_bytes_zero packet)"
    proof (cases "get_online_device_count (hid self) = 0")
      case False
      then have "collect_and_send sys sens self = Inr (self', calls)"
        using r by (simp add: update_cycle_def)
      then show ?thesis using collect_and_send_no_gpu[OF assms] by blast
    next
      case True
      obtain n hid1 where o: "open_devices sys (hid self) = (n, hid1)"
        by (cases "open_devices sys (hid self)")
      show ?thesis
      proof (cases "n = 0")
        case True
        then have "calls = []" using r o \<open>get_online_device_count (hid self) = 0\<close>
          by (simp add: update_cycle_def)
        then show ?thesis using True o \<open>get_online_device_count (hid self) = 0\<close> by simp
      next
        case False
        have m: "gpu_vendor (monitor (self\<lparr>hid := hid1\<rparr>)) = None" using assms by simp
        have "collect_and_send sys sens (self\<lparr>hid := hid1\<rparr>) = Inr (self', calls)"
          using r o False \<open>get_online_device_count (hid self) = 0\<close>
          by (simp add: update_cycle_def)
        then show ?thesis using collect_and_send_no_gpu[OF m] by blast
      qed
    qed
  qed
  have d: "\<not> nvidia_available m0 \<and>
          (\<forall>cards. drm = Some cards \<longrightarrow>
             (\<forall>c \<in> set cards. vendor_file c \<noteq> Unreadable \<and>
                (\<forall>text. vendor_file c = Content text \<longrightarrow>
                   strip text \<noteq> ''0x1002'' \<and> strip text \<noteq> ''0x8086''))) \<longrightarrow>
          detect_gpu m0 drm = Inr m0"
    by (cases drm) (simp_all add: detect_gpu_def detect_in_cards_no_match)
  have t: "distinct (map fst (devices (hid self))) \<and> get_online_device_count (hid self) \<noteq> 0 \<and>
          (\<exists>x. cpu_arguments (cpu_reading sens) = Inr x) \<longrightarrow>
            (\<exists>self' calls. update_cycle sys sens self = Inr (self', calls))"
    using collect_and_send_returns[OF assms, where sens=sens and sys=sys]
    by (auto simp: update_cycle_def)
  show ?thesis
    using g u d t by (simp add: GpuData_default_def)
qed

theorem no_gpu_backend_witness:
  "gpu_vendor (monitor example_display) = None \<and>
   get_online_device_count (hid example_display) \<noteq> 0 \<and>
   distinct (map fst (devices (hid example_display))) \<and>
   cpu_arguments (cpu_reading example_sensors) = Inr (45, 25, 3500, 0, 0) \<and>
   (\<exists>self' calls.
      update_cycle (example_system\<lparr>os_write := (\<lambda>p. Written 65)\<rparr>) example_sensors example_display =
        Inr (self', calls) \<and>
      gpu_fields_zero (sensor_data (hid self')) \<and>
      DataWrite ''/dev/hidraw0'' 3
        ([176, 1, 0, 0, 45, 0, 25, 0, 0, 0, 0, 0, 0, 0, 13, 172, 0, 0, 0, 12, 30, 59, 60, 40]
         @ replicate 41 0) \<in> set calls \<and>
      gpu_bytes_zero
        ([176, 1, 0, 0, 45, 0, 25, 0, 0, 0, 0, 0, 0, 0, 13, 172, 0, 0, 0, 12, 30, 59, 60, 40]
         @ replicate 41 0) \<and>
      DataWrite ''/dev/hidraw1'' 4
        ([0, 2, 45, 0, 12, 30, 59, 0, 7, 234, 11, 3, 1, 25, 13, 172, 0, 0, 0, 60, 0, 0, 0, 40]
         @ replicate 41 0) \<in> set calls \<and>
      gpu_bytes_zero
        ([0, 2, 45, 0, 12, 30, 59, 0, 7, 234, 11, 3, 1, 25, 13, 172, 0, 0, 0, 60, 0, 0, 0, 40]
         @ replicate 41 0)) \<and>
   \<not> nvidia_available (monitor example_display) \<and>
   detect_gpu (monitor example_display)
     (Some [\<lparr>card_name = ''card0'', device_exists = True, vendor_file = Content ''0x10de'',
             hwmon_entries = None\<rparr>]) = Inr (monitor example_display)"
proof -
  define sys where "sys = example_system\<lparr>os_write := (\<lambda>p. Written 65)\<rparr>"
  define pa :: bytes where
    "pa = [176, 1, 0, 0, 45, 0, 25, 0, 0, 0, 0, 0, 0, 0, 13, 172, 0, 0, 0, 12, 30, 59, 60, 40]
         @ replicate 41 0"
  define pb :: bytes where
    "pb = [0, 2, 45, 0, 12, 30, 59, 0, 7, 234, 11, 3, 1, 25, 13, 172, 0, 0, 0, 60, 0, 0, 0, 40]
         @ replicate 41 0"
  define calls where
    "calls = [InitWrite 3 ([0xB0, 0x01, 0x00] @ replicate 62 0),
      InitWrite 3 ([0x00, 0x38, 0xB5, 0x01, 0x00] @ replicate 60 0),
      InitWrite 3 ([0x00, 0x38, 0xB5, 0x01, 0x01] @ replicate 60 0),
      DataWrite ''/dev/hidraw0'' 3 pa, DataWrite ''/dev/hidraw1'' 4 pb]"
  define drm where
    "drm = Some [\<lparr>card_name = ''card0'', device_exists = True, vendor_file = Content ''0x10de'',
             hwmon_entries = None\<rparr>]"
  have v: "gpu_vendor (monitor example_display) = None"
    and n: "\<not> nvidia_available (monitor example_display)"
    by (simp_all add: example_display_def)
  have c: "get_online_device_count (hid example_display) \<noteq> 0"
    by (simp add: example_display_def example_device_def get_online_device_count_def)
  have e: "(case update_cycle sys example_sensors example_display of
              Inl e \<Rightarrow> None | Inr (s, c) \<Rightarrow> Some c) = Some calls"
    unfolding sys_def calls_def pa_def pb_def by code_simp
  have dk: "distinct (map fst (devices (hid example_display)))"
    by (simp add: example_display_def example_device_def)
  have ca: "cpu_arguments (cpu_reading example_sensors) = Inr (45, 25, 3500, 0, 0)"
    by (simp add: cpu_arguments_def example_sensors_def)
  note t = no_gpu_backend[OF v, of example_sensors sys "monitor example_display" drm]
  have rr: "\<exists>self' calls. update_cycle sys example_sensors example_display = Inr (self', calls)"
    using t dk c ca by blast
  have r: "\<exists>self'. update_cycle sys example_sensors example_display = Inr (self', calls)"
  proof (cases "update_cycle sys example_sensors example_display")
    case (Inl x)
    then show ?thesis using e by simp
  next
    case (Inr x)
    then show ?thesis using e by (cases x) simp
  qed
  then obtain self' where r: "update_cycle sys example_sensors example_display = Inr (self', calls)"
    by blast
  have m: "\<forall>cards. drm = Some cards \<longrightarrow>
             (\<forall>c \<in> set cards. vendor_file c \<noteq> Unreadable \<and>
                (\<forall>text. vendor_file c = Content text \<longrightarrow>
                   strip text \<noteq> ''0x1002'' \<and> strip text \<noteq> ''0x8086''))"
    by (simp add: drm_def strip_def isspace_def)
  have a: "DataWrite ''/dev/hidraw0'' 3 pa \<in> set calls"
    and b: "DataWrite ''/dev/hidraw1'' 4 pb \<in> set calls"
    by (simp_all add: calls_def)
  have u: "(get_online_device_count (hid example_display) \<noteq> 0 \<or>
              fst (open_devices sys (hid example_display)) \<noteq> 0 \<longrightarrow>
               gpu_fields_zero (sensor_data (hid self'))) \<and>
            (\<forall>p fd packet. DataWrite p fd packet \<in> set calls \<longrightarrow> gpu_bytes_zero packet)"
    using t r by blast
  have z: "gpu_fields_zero (sensor_data (hid self'))" using u c by blast
  have za: "gpu_bytes_zero pa" using u a by blast
  have zb: "gpu_bytes_zero pb" using u b by blast
  have d: "detect_gpu (monitor example_display) drm = Inr (monitor example_display)"
    using t n m by blast
  have main: "gpu_vendor (monitor example_display) = None \<and>
   get_online_device_count (hid example_display) \<noteq> 0 \<and>
   distinct (map fst (devices (hid example_display))) \<and>
   cpu_arguments (cpu_reading example_sensors) = Inr (45, 25, 3500, 0, 0) \<and>
   (\<exists>self' calls.
      update_cycle sys example_sensors example_display = Inr (self', calls) \<and>
      gpu_fields_zero (sensor_data (hid self')) \<and>
      DataWrite ''/dev/hidraw0'' 3 pa \<in> set calls \<and> gpu_bytes_zero pa \<and>
      DataWrite ''/dev/hidraw1'' 4 pb \<in> set calls \<and> gpu_bytes_zero pb) \<and>
   \<not> nvidia_available (monitor example_display) \<and>
   detect_gpu (monitor example_display) drm = Inr (monitor example_display)"
    using v c dk ca r z a za b zb n d by blast
  show ?thesis
    using main unfolding sys_def pa_def pb_def drm_def .
qed

end
